theory Spec2Isabelle
  imports Main
begin

section \<open>Python values used by the pipeline\<close>

text \<open>
  Exceptions are values. Every \<open>raise\<close> of the source, and every exception a built-in
  raises on the inputs modelled here, is an \<open>Inl\<close> result.
\<close>

datatype error =
    KeyError string
  | IndexError
  | ValueError
  | RuntimeError string
  | JSONDecodeError
  | ValidationError
  | TypeError
  | AttributeError
  | APIError
  | OSError

text \<open>
  A Python \<open>dict\<close> keeps insertion order; it is an association list whose keys are
  pairwise different. Storing under a key that is present replaces the value in place,
  storing under a new key appends.
\<close>

type_synonym ('k, 'v) dict = "('k \<times> 'v) list"

fun dict_set :: "('k, 'v) dict \<Rightarrow> 'k \<Rightarrow> 'v \<Rightarrow> ('k, 'v) dict" where
  "dict_set [] k v = [(k, v)]"
| "dict_set ((k', v') # d) k v = (if k' = k then (k, v) # d else (k', v') # dict_set d k v)"

definition dict_of_items :: "('k \<times> 'v) list \<Rightarrow> ('k, 'v) dict" where
  "dict_of_items kvs = foldl (\<lambda>d (k, v). dict_set d k v) [] kvs"

definition dict_keys :: "('k, 'v) dict \<Rightarrow> 'k list" where
  "dict_keys d = map fst d"

definition dict_values :: "('k, 'v) dict \<Rightarrow> 'v list" where
  "dict_values d = map snd d"

definition dict_contains :: "('k, 'v) dict \<Rightarrow> 'k \<Rightarrow> bool" where
  "dict_contains d k = (k \<in> set (dict_keys d))"

definition dict_get :: "('k, 'v) dict \<Rightarrow> 'k \<Rightarrow> 'v option" where
  "dict_get d k = map_of d k"

text \<open>\<open>sep.join(xs)\<close>.\<close>

fun join :: "string \<Rightarrow> string list \<Rightarrow> string" where
  "join sep [] = []"
| "join sep [x] = x"
| "join sep (x # y # ys) = x @ sep @ join sep (y # ys)"

text \<open>
  \<open>str.strip()\<close> removes white space at both ends. A \<open>char\<close> stands for the code point
  of the same number; below 256 Python's white space is 9 to 13, 28 to 32, 133 and 160.
\<close>

definition py_isspace :: "char \<Rightarrow> bool" where
  "py_isspace c = (of_char c \<in> {9, 10, 11, 12, 13, 28, 29, 30, 31, 32, 133, 160 :: nat})"

definition py_strip :: "string \<Rightarrow> string" where
  "py_strip s = rev (dropWhile py_isspace (rev (dropWhile py_isspace s)))"

text \<open>\<open>str(n)\<close> for an integer: decimal digits, with a minus sign when negative.\<close>

definition digit_char :: "nat \<Rightarrow> char" where
  "digit_char d = ''0123456789'' ! d"

fun str_nat :: "nat \<Rightarrow> string" where
  "str_nat n = (if n < 10 then [digit_char n] else str_nat (n div 10) @ [digit_char (n mod 10)])"

declare str_nat.simps [simp del]

definition str_int :: "int \<Rightarrow> string" where
  "str_int i = (if i < 0 then CHR ''-'' # str_nat (nat (- i)) else str_nat (nat i))"

text \<open>\<open>xs.index(x)\<close>: the first position of \<open>x\<close>, or \<open>ValueError\<close>.\<close>

fun list_index :: "'a list \<Rightarrow> 'a \<Rightarrow> error + nat" where
  "list_index [] x = Inl ValueError"
| "list_index (y # ys) x =
     (if y = x then Inr 0
      else case list_index ys x of Inl e \<Rightarrow> Inl e | Inr i \<Rightarrow> Inr (Suc i))"

text \<open>\<open>xs[i]\<close> for an index that is not negative: the element, or \<open>IndexError\<close>.\<close>

definition list_get :: "'a list \<Rightarrow> nat \<Rightarrow> error + 'a" where
  "list_get xs i = (if i < length xs then Inr (xs ! i) else Inl IndexError)"

text \<open>A list comprehension whose element expression may raise: the first exception wins.\<close>

fun map_raise :: "('a \<Rightarrow> error + 'b) \<Rightarrow> 'a list \<Rightarrow> error + 'b list" where
  "map_raise f [] = Inr []"
| "map_raise f (x # xs) =
     (case f x of
        Inl e \<Rightarrow> Inl e
      | Inr y \<Rightarrow> (case map_raise f xs of Inl e \<Rightarrow> Inl e | Inr ys \<Rightarrow> Inr (y # ys)))"

section \<open>JSON values\<close>

text \<open>
  What \<open>json.load\<close> returns: an object is a \<open>dict\<close> with string keys. Numbers with a
  fraction are outside the model.
\<close>

datatype json =
    JNull
  | JBool bool
  | JInt int
  | JStr string
  | JArr "json list"
  | JObj "(string \<times> json) list"

text \<open>\<open>data[key]\<close> on a parsed value.\<close>

fun get_item :: "json \<Rightarrow> string \<Rightarrow> error + json" where
  "get_item (JObj kvs) k = (case map_of kvs k of None \<Rightarrow> Inl (KeyError k) | Some v \<Rightarrow> Inr v)"
| "get_item j k = Inl TypeError"

text \<open>\<open>data.get(key, default)\<close>: only a \<open>dict\<close> has the method.\<close>

fun get_default :: "json \<Rightarrow> string \<Rightarrow> json \<Rightarrow> error + json" where
  "get_default (JObj kvs) k d = (case map_of kvs k of None \<Rightarrow> Inr d | Some v \<Rightarrow> Inr v)"
| "get_default j k d = Inl AttributeError"

text \<open>\<open>data.items()\<close>.\<close>

fun items :: "json \<Rightarrow> error + (string \<times> json) list" where
  "items (JObj kvs) = Inr kvs"
| "items j = Inl AttributeError"

text \<open>
  \<open>for x in value\<close>: a list gives its elements, a string its characters, a \<open>dict\<close> its
  keys; anything else is not iterable.
\<close>

fun py_iter :: "json \<Rightarrow> error + json list" where
  "py_iter (JArr xs) = Inr xs"
| "py_iter (JStr s) = Inr (map (\<lambda>c. JStr [c]) s)"
| "py_iter (JObj kvs) = Inr (map (\<lambda>kv. JStr (fst kv)) kvs)"
| "py_iter j = Inl TypeError"

text \<open>The truth value of a parsed value, as \<open>if value:\<close> takes it.\<close>

fun truthy :: "json \<Rightarrow> bool" where
  "truthy JNull = False"
| "truthy (JBool b) = b"
| "truthy (JInt i) = (i \<noteq> 0)"
| "truthy (JStr s) = (s \<noteq> [])"
| "truthy (JArr xs) = (xs \<noteq> [])"
| "truthy (JObj kvs) = (kvs \<noteq> [])"

text \<open>
  \<open>repr\<close> of a list of strings, as an f-string shows it. Exact for items without quote,
  backslash or control characters (Python escapes those).
\<close>

definition py_repr_list :: "string list \<Rightarrow> string" where
  "py_repr_list xs = ''['' @ join '', '' (map (\<lambda>s. [CHR 0x27] @ s @ [CHR 0x27]) xs) @ '']''"

section \<open>Data model (models.py)\<close>

text \<open>
  The input table. A JSON cell is a scalar or a list wrapping scalars; floats, objects and
  nested lists are outside the model. A header entry is a column name or a list wrapping
  column names.
\<close>

datatype scalar = SStr string | SInt int | SBool bool | SNull

datatype cell = Plain scalar | Wrapped "scalar list"

datatype hcell = HPlain string | HWrapped "string list"

datatype pkey = PKSingle string | PKComposite "string list"

record table_data =
  tbl_header :: "hcell list"
  tbl_primary_key :: pkey
  tbl_data :: "cell list list"

record strategy_assignment =
  assignments :: "(string, string list) dict"

record fact_writing_guidance =
  fg_primary_key :: string
  fg_attribute :: string
  fg_fact :: string
  fg_writing_guidance :: string
  fg_sub_facts :: "(string, string) dict"

record section_plan =
  sp_section_id :: int
  sp_title :: string
  sp_goal :: string
  sp_summary :: string
  sp_facts :: "string list"

record document_plan =
  dp_theme :: string
  dp_genre :: string
  dp_sections :: "section_plan list"

record section_rec =
  sec_section_id :: int
  sec_title :: string
  sec_content :: string
  sec_verified :: bool

record document =
  doc_theme :: string
  doc_genre :: string
  doc_sections :: "section_rec list"

record verification_result =
  vr_ok :: bool
  vr_errors :: "(string, string) dict list"

section \<open>Configuration (config.py)\<close>

record config =
  ENABLE_STRATEGY_ASSIGNMENT :: bool
  PLAN_MAX_RETRIES :: nat
  REFINE_MAX_RETRIES :: nat
  VERIFY_AND_REPAIR_MAX_RETRIES :: nat
  LLM_MAX_RETRIES :: nat
  MIN_SECTIONS :: nat
  MAX_SECTIONS :: nat
  DISPERSION_STRATEGY :: string
  OUTPUT_PATH :: string

text \<open>
  The values of config.py. \<open>DISPERSION_STRATEGY\<close> is read by the planner and is not set
  in config.py, so it is an argument.
\<close>

definition default_config :: "string \<Rightarrow> config" where
  "default_config dispersion =
     \<lparr> ENABLE_STRATEGY_ASSIGNMENT = True, PLAN_MAX_RETRIES = 3, REFINE_MAX_RETRIES = 3,
       VERIFY_AND_REPAIR_MAX_RETRIES = 4, LLM_MAX_RETRIES = 3,
       MIN_SECTIONS = 80, MAX_SECTIONS = 160, DISPERSION_STRATEGY = dispersion,
       OUTPUT_PATH = ''document'' \<rparr>"

section \<open>Table helpers (planner_agent.py)\<close>

text \<open>\<open>str(x)\<close> of a scalar, and the flattening of cells and header entries.\<close>

fun py_str :: "scalar \<Rightarrow> string" where
  "py_str (SStr s) = s"
| "py_str (SInt i) = str_int i"
| "py_str (SBool b) = (if b then ''True'' else ''False'')"
| "py_str SNull = ''None''"

text \<open>\<open>str(c[0]) if isinstance(c, list) and c else str(c)\<close>; \<open>str([])\<close> is \<open>[]\<close>.\<close>

fun flat_cell :: "cell \<Rightarrow> string" where
  "flat_cell (Plain x) = py_str x"
| "flat_cell (Wrapped []) = ''[]''"
| "flat_cell (Wrapped (x # xs)) = py_str x"

text \<open>\<open>h[0] if isinstance(h, list) and h else str(h)\<close>.\<close>

fun flat_header :: "hcell \<Rightarrow> string" where
  "flat_header (HPlain s) = s"
| "flat_header (HWrapped []) = ''[]''"
| "flat_header (HWrapped (s # ss)) = s"

datatype pk_index = IdxSingle nat | IdxList "nat list"

definition parse_table_header :: "table_data \<Rightarrow> error + (string list \<times> string \<times> pk_index)" where
  "parse_table_header t =
     (let hdr = map flat_header (tbl_header t) in
      case tbl_primary_key t of
        PKComposite pks \<Rightarrow>
          (case map_raise (list_index hdr) pks of
             Inl e \<Rightarrow> Inl e
           | Inr idxs \<Rightarrow> Inr (hdr, join '', '' pks, IdxList idxs))
      | PKSingle pk \<Rightarrow>
          (case list_index hdr pk of
             Inl e \<Rightarrow> Inl e
           | Inr i \<Rightarrow> Inr (hdr, pk, IdxSingle i)))"

text \<open>The primary-key value of a flattened row.\<close>

fun row_pk_of :: "pk_index \<Rightarrow> string list \<Rightarrow> error + string" where
  "row_pk_of (IdxList idxs) flat_row =
     (case map_raise (list_get flat_row) idxs of
        Inl e \<Rightarrow> Inl e
      | Inr vs \<Rightarrow> Inr (join '', '' vs))"
| "row_pk_of (IdxSingle i) flat_row = list_get flat_row i"

fun is_pk_column :: "pk_index \<Rightarrow> nat \<Rightarrow> bool" where
  "is_pk_column (IdxList idxs) i = (i \<in> set idxs)"
| "is_pk_column (IdxSingle j) i = (i = j)"

text \<open>\<open>val and str(val).strip()\<close>, as a truth value.\<close>

definition nonblank :: "string \<Rightarrow> bool" where
  "nonblank val = (val \<noteq> [] \<and> py_strip val \<noteq> [])"

text \<open>
  The inner loop of \<open>_get_nonempty_cells\<close> over \<open>enumerate(header)\<close>, from position
  \<open>i\<close> on, adding to the set \<open>cells\<close>. A Python \<open>set\<close> is a list without repetition,
  in the order of insertion (Python fixes no order).
\<close>

definition set_add :: "'a list \<Rightarrow> 'a \<Rightarrow> 'a list" where
  "set_add xs x = (if x \<in> set xs then xs else xs @ [x])"

fun row_cells :: "pk_index \<Rightarrow> string \<Rightarrow> string list \<Rightarrow> nat \<Rightarrow> string list \<Rightarrow> string list
    \<Rightarrow> error + string list" where
  "row_cells idx row_pk flat_row i [] cells = Inr cells"
| "row_cells idx row_pk flat_row i (col_name # cols) cells =
     (if is_pk_column idx i then row_cells idx row_pk flat_row (Suc i) cols cells
      else case list_get flat_row i of
        Inl e \<Rightarrow> Inl e
      | Inr val \<Rightarrow>
          row_cells idx row_pk flat_row (Suc i) cols
            (if nonblank val then set_add cells (row_pk @ '','' @ col_name) else cells))"

text \<open>The outer loop over the rows.\<close>

fun rows_cells :: "string list \<Rightarrow> pk_index \<Rightarrow> cell list list \<Rightarrow> string list \<Rightarrow> error + string list" where
  "rows_cells hdr idx [] cells = Inr cells"
| "rows_cells hdr idx (row # rows) cells =
     (let flat_row = map flat_cell row in
      if flat_row = [] then rows_cells hdr idx rows cells
      else case row_pk_of idx flat_row of
        Inl e \<Rightarrow> Inl e
      | Inr row_pk \<Rightarrow>
          (case row_cells idx row_pk flat_row 0 hdr cells of
             Inl e \<Rightarrow> Inl e
           | Inr cells' \<Rightarrow> rows_cells hdr idx rows cells'))"

definition get_nonempty_cells :: "table_data \<Rightarrow> string list \<Rightarrow> string \<Rightarrow> pk_index \<Rightarrow> error + string list" where
  "get_nonempty_cells t hdr primary_key idx = rows_cells hdr idx (tbl_data t) []"

section \<open>The world: files, generation requests, log (utils.py)\<close>

text \<open>
  A path is its list of components. A file holds JSON (what \<open>read_json\<close> returns), an
  input table (JSON of the shape of \<open>table_data\<close>), or text that is not JSON.
  Directories are not modelled: \<open>os.makedirs\<close> changes nothing here, and a directory
  exists when a file lies under it.
\<close>

type_synonym path = "string list"

datatype file_content = JsonFile json | TableFile table_data | TextFile string

datatype fs_op =
    OpWrite path file_content
  | OpAppend path string
  | OpRmtree path
  | OpFailed

datatype role = System | User | Assistant

text \<open>
  The text of a message. The prompt templates of prompts.py are not modelled:
  \<open>prompts.X.format(a=..., b=...)\<close> is \<open>Template X [a, b]\<close>, the arguments in the order
  of the call.
\<close>

datatype content = Text string | Template string "string list"

type_synonym message = "role \<times> content"

datatype level = Warning | Error

text \<open>
  \<open>files\<close> is the file system, \<open>ops\<close> the file operations attempted so far, \<open>calls\<close>
  the requests sent to the generation API so far, \<open>logs\<close> the warnings and errors logged
  (their static text; \<open>logger.info\<close> and \<open>logger.debug\<close> are not modelled).
\<close>

record world =
  files :: "path \<rightharpoonup> file_content"
  ops :: "fs_op list"
  calls :: "message list list"
  logs :: "(level \<times> string) list"

text \<open>
  What the code does not decide: the answer of the API to the n-th request, whether the
  n-th file operation fails, and the two library functions \<open>parse_json\<close> calls.
\<close>

record env =
  llm_api :: "nat \<Rightarrow> message list \<Rightarrow> error + string"
  io_fails :: "nat \<Rightarrow> fs_op \<Rightarrow> bool"
  json_loads :: "string \<Rightarrow> json option"
  repair_json :: "string \<Rightarrow> error + string"

text \<open>A computation reads and changes the world and returns a value or raises.\<close>

type_synonym 'a io = "world \<Rightarrow> (error + 'a) \<times> world"

definition io_return :: "'a \<Rightarrow> 'a io" where
  "io_return x = (\<lambda>w. (Inr x, w))"

definition io_raise :: "error \<Rightarrow> 'a io" where
  "io_raise e = (\<lambda>w. (Inl e, w))"

definition io_lift :: "error + 'a \<Rightarrow> 'a io" where
  "io_lift r = (\<lambda>w. (r, w))"

definition io_bind :: "'a io \<Rightarrow> ('a \<Rightarrow> 'b io) \<Rightarrow> 'b io" where
  "io_bind m f = (\<lambda>w. case m w of (Inl e, w') \<Rightarrow> (Inl e, w') | (Inr x, w') \<Rightarrow> f x w')"

text \<open>\<open>try: m except Exception as e: h e\<close>.\<close>

definition io_try :: "'a io \<Rightarrow> (error \<Rightarrow> 'a io) \<Rightarrow> 'a io" where
  "io_try m h = (\<lambda>w. case m w of (Inl e, w') \<Rightarrow> h e w' | (Inr x, w') \<Rightarrow> (Inr x, w'))"

definition log_msg :: "level \<Rightarrow> string \<Rightarrow> unit io" where
  "log_msg l s = (\<lambda>w. (Inr (), w\<lparr>logs := logs w @ [(l, s)]\<rparr>))"

definition path_exists :: "path \<Rightarrow> bool io" where
  "path_exists p = (\<lambda>w. (Inr (files w p \<noteq> None), w))"

definition read_json :: "path \<Rightarrow> json io" where
  "read_json p = (\<lambda>w. case files w p of
       None \<Rightarrow> (Inl OSError, w)
     | Some (JsonFile j) \<Rightarrow> (Inr j, w)
     | Some other \<Rightarrow> (Inl JSONDecodeError, w))"

text \<open>
  The effect of a file operation on the files: writing a whole file, appending text to a
  file, and \<open>shutil.rmtree\<close>, which removes every file under a directory.
\<close>

definition is_under :: "path \<Rightarrow> path \<Rightarrow> bool" where
  "is_under d p = (length d < length p \<and> take (length d) p = d)"

definition file_text :: "file_content option \<Rightarrow> string" where
  "file_text f = (case f of Some (TextFile s) \<Rightarrow> s | _ \<Rightarrow> [])"

fun apply_op :: "fs_op \<Rightarrow> (path \<rightharpoonup> file_content) \<Rightarrow> (path \<rightharpoonup> file_content)" where
  "apply_op (OpWrite p c) fs = fs(p \<mapsto> c)"
| "apply_op (OpAppend p s) fs = fs(p \<mapsto> TextFile (file_text (fs p) @ s))"
| "apply_op (OpRmtree d) fs = (\<lambda>p. if is_under d p then None else fs p)"
| "apply_op OpFailed fs = fs"

text \<open>A file operation that fails raises and leaves the files as they were.\<close>

definition do_op :: "env \<Rightarrow> fs_op \<Rightarrow> unit io" where
  "do_op env op = (\<lambda>w.
     if io_fails env (length (ops w)) op
     then (Inl OSError, w\<lparr>ops := ops w @ [OpFailed]\<rparr>)
     else (Inr (), w\<lparr>files := apply_op op (files w), ops := ops w @ [op]\<rparr>))"

definition write_json :: "env \<Rightarrow> path \<Rightarrow> json \<Rightarrow> unit io" where
  "write_json env p j = do_op env (OpWrite p (JsonFile j))"

text \<open>
  \<open>call_llm\<close>: up to \<open>LLM_MAX_RETRIES\<close> requests; the waiting between them is not
  modelled. The last argument counts the iterations left. With \<open>LLM_MAX_RETRIES = 0\<close> the
  source's loop does not run and \<open>None\<close> comes back, on which every caller fails: the
  first equation.
\<close>

fun call_llm_loop :: "env \<Rightarrow> config \<Rightarrow> message list \<Rightarrow> nat \<Rightarrow> nat \<Rightarrow> string io" where
  "call_llm_loop env cfg messages retries 0 = io_raise TypeError"
| "call_llm_loop env cfg messages retries (Suc fuel) = (\<lambda>w.
     case llm_api env (length (calls w)) messages of
       Inr response_content \<Rightarrow> (Inr response_content, w\<lparr>calls := calls w @ [messages]\<rparr>)
     | Inl e \<Rightarrow>
         (let w1 = w\<lparr>calls := calls w @ [messages],
                      logs := logs w @ [(Warning, ''LLM Call Failed'')]\<rparr> in
          if Suc retries \<ge> LLM_MAX_RETRIES cfg
          then (Inl e, w1\<lparr>logs := logs w1 @ [(Error, ''Max retries reached. Raising exception.'')]\<rparr>)
          else call_llm_loop env cfg messages (Suc retries) fuel w1))"

definition call_llm :: "env \<Rightarrow> config \<Rightarrow> message list \<Rightarrow> string io" where
  "call_llm env cfg messages = call_llm_loop env cfg messages 0 (LLM_MAX_RETRIES cfg)"

text \<open>\<open>text.find(c)\<close> and \<open>text.rfind(c)\<close>: a position, or \<open>None\<close> for \<open>-1\<close>.\<close>

fun str_find :: "string \<Rightarrow> char \<Rightarrow> nat option" where
  "str_find [] c = None"
| "str_find (x # xs) c = (if x = c then Some 0 else map_option Suc (str_find xs c))"

definition str_rfind :: "string \<Rightarrow> char \<Rightarrow> nat option" where
  "str_rfind s c = map_option (\<lambda>i. length s - 1 - i) (str_find (rev s) c)"

definition parse_json :: "env \<Rightarrow> string \<Rightarrow> json io" where
  "parse_json env text =
     (case str_find text (CHR ''{'') of
        None \<Rightarrow> io_raise JSONDecodeError
      | Some start_brace \<Rightarrow>
          (case str_rfind text (CHR ''}'') of
             None \<Rightarrow> io_raise JSONDecodeError
           | Some end_brace \<Rightarrow>
               if end_brace < start_brace then io_raise JSONDecodeError
               else
                 (let extracted = drop start_brace (take (Suc end_brace) text) in
                  case json_loads env extracted of
                    Some j \<Rightarrow> io_return j
                  | None \<Rightarrow>
                      (case repair_json env extracted of
                         Inr repaired \<Rightarrow>
                           (case json_loads env repaired of
                              Some j \<Rightarrow> io_return j
                            | None \<Rightarrow>
                                io_bind (log_msg Warning ''json_repair failed on extracted content'')
                                  (\<lambda>_. io_raise JSONDecodeError))
                       | Inl e \<Rightarrow>
                           io_bind (log_msg Warning ''json_repair failed on extracted content'')
                             (\<lambda>_. io_raise JSONDecodeError)))))"

section \<open>Validation into the records of models.py\<close>

text \<open>
  \<open>Model(**data)\<close> checks the shape of \<open>data\<close>. The checks are strict here: a string field
  takes a JSON string, an integer field a JSON integer, a boolean field a JSON boolean.
  The conversions the library adds (a numeric string for an integer, and the like) count
  as failures. Keys that are no field are ignored; a missing field with a default takes it.
\<close>

fun as_str :: "json \<Rightarrow> error + string" where
  "as_str (JStr s) = Inr s"
| "as_str j = Inl ValidationError"

fun as_int :: "json \<Rightarrow> error + int" where
  "as_int (JInt i) = Inr i"
| "as_int j = Inl ValidationError"

fun as_bool :: "json \<Rightarrow> error + bool" where
  "as_bool (JBool b) = Inr b"
| "as_bool j = Inl ValidationError"

fun as_list :: "(json \<Rightarrow> error + 'a) \<Rightarrow> json \<Rightarrow> error + 'a list" where
  "as_list f (JArr xs) = map_raise f xs"
| "as_list f j = Inl ValidationError"

fun as_dict :: "(json \<Rightarrow> error + 'a) \<Rightarrow> json \<Rightarrow> error + (string, 'a) dict" where
  "as_dict f (JObj kvs) =
     map_raise (\<lambda>kv. case f (snd kv) of Inl e \<Rightarrow> Inl e | Inr v \<Rightarrow> Inr (fst kv, v)) kvs"
| "as_dict f j = Inl ValidationError"

definition bindE :: "error + 'a \<Rightarrow> ('a \<Rightarrow> error + 'b) \<Rightarrow> error + 'b" where
  "bindE r f = (case r of Inl e \<Rightarrow> Inl e | Inr x \<Rightarrow> f x)"

definition required :: "(string \<times> json) list \<Rightarrow> string \<Rightarrow> (json \<Rightarrow> error + 'a) \<Rightarrow> error + 'a" where
  "required kvs k f = (case map_of kvs k of None \<Rightarrow> Inl ValidationError | Some v \<Rightarrow> f v)"

definition optional :: "(string \<times> json) list \<Rightarrow> string \<Rightarrow> (json \<Rightarrow> error + 'a) \<Rightarrow> 'a \<Rightarrow> error + 'a" where
  "optional kvs k f d = (case map_of kvs k of None \<Rightarrow> Inr d | Some v \<Rightarrow> f v)"

fun StrategyAssignment_of :: "json \<Rightarrow> error + strategy_assignment" where
  "StrategyAssignment_of (JObj kvs) =
     bindE (required kvs ''assignments'' (as_dict (as_list as_str)))
       (\<lambda>a. Inr \<lparr>assignments = a\<rparr>)"
| "StrategyAssignment_of j = Inl TypeError"

fun FactWritingGuidance_of :: "json \<Rightarrow> error + fact_writing_guidance" where
  "FactWritingGuidance_of (JObj kvs) =
     bindE (required kvs ''primary_key'' as_str) (\<lambda>pk.
     bindE (required kvs ''attribute'' as_str) (\<lambda>attr.
     bindE (required kvs ''fact'' as_str) (\<lambda>fact.
     bindE (required kvs ''writing_guidance'' as_str) (\<lambda>g.
     bindE (optional kvs ''sub_facts'' (as_dict as_str) []) (\<lambda>sf.
       Inr \<lparr>fg_primary_key = pk, fg_attribute = attr, fg_fact = fact,
            fg_writing_guidance = g, fg_sub_facts = sf\<rparr>)))))"
| "FactWritingGuidance_of j = Inl TypeError"

fun SectionPlan_of :: "json \<Rightarrow> error + section_plan" where
  "SectionPlan_of (JObj kvs) =
     bindE (required kvs ''section_id'' as_int) (\<lambda>i.
     bindE (required kvs ''title'' as_str) (\<lambda>t.
     bindE (required kvs ''goal'' as_str) (\<lambda>g.
     bindE (required kvs ''summary'' as_str) (\<lambda>s.
     bindE (optional kvs ''facts'' (as_list as_str) []) (\<lambda>fs.
       Inr \<lparr>sp_section_id = i, sp_title = t, sp_goal = g, sp_summary = s, sp_facts = fs\<rparr>)))))"
| "SectionPlan_of j = Inl ValidationError"

fun DocumentPlan_of :: "json \<Rightarrow> error + document_plan" where
  "DocumentPlan_of (JObj kvs) =
     bindE (required kvs ''theme'' as_str) (\<lambda>t.
     bindE (required kvs ''genre'' as_str) (\<lambda>g.
     bindE (optional kvs ''sections'' (as_list SectionPlan_of) []) (\<lambda>ss.
       Inr \<lparr>dp_theme = t, dp_genre = g, dp_sections = ss\<rparr>)))"
| "DocumentPlan_of j = Inl TypeError"

fun Section_of :: "json \<Rightarrow> error + section_rec" where
  "Section_of (JObj kvs) =
     bindE (required kvs ''section_id'' as_int) (\<lambda>i.
     bindE (required kvs ''title'' as_str) (\<lambda>t.
     bindE (required kvs ''content'' as_str) (\<lambda>c.
     bindE (optional kvs ''verified'' as_bool False) (\<lambda>v.
       Inr \<lparr>sec_section_id = i, sec_title = t, sec_content = c, sec_verified = v\<rparr>))))"
| "Section_of j = Inl TypeError"

fun VerificationResult_of :: "json \<Rightarrow> error + verification_result" where
  "VerificationResult_of (JObj kvs) =
     bindE (required kvs ''ok'' as_bool) (\<lambda>b.
     bindE (optional kvs ''errors'' (as_list (as_dict as_str)) []) (\<lambda>es.
       Inr \<lparr>vr_ok = b, vr_errors = es\<rparr>))"
| "VerificationResult_of j = Inl TypeError"

text \<open>\<open>model_dump()\<close>.\<close>

definition dump_StrategyAssignment :: "strategy_assignment \<Rightarrow> json" where
  "dump_StrategyAssignment a =
     JObj [(''assignments'', JObj (map (\<lambda>kv. (fst kv, JArr (map JStr (snd kv)))) (assignments a)))]"

definition dump_FactWritingGuidance :: "fact_writing_guidance \<Rightarrow> json" where
  "dump_FactWritingGuidance f =
     JObj [(''primary_key'', JStr (fg_primary_key f)), (''attribute'', JStr (fg_attribute f)),
           (''fact'', JStr (fg_fact f)), (''writing_guidance'', JStr (fg_writing_guidance f)),
           (''sub_facts'', JObj (map (\<lambda>kv. (fst kv, JStr (snd kv))) (fg_sub_facts f)))]"

definition dump_SectionPlan :: "section_plan \<Rightarrow> json" where
  "dump_SectionPlan p =
     JObj [(''section_id'', JInt (sp_section_id p)), (''title'', JStr (sp_title p)),
           (''goal'', JStr (sp_goal p)), (''summary'', JStr (sp_summary p)),
           (''facts'', JArr (map JStr (sp_facts p)))]"

definition dump_DocumentPlan :: "document_plan \<Rightarrow> json" where
  "dump_DocumentPlan p =
     JObj [(''theme'', JStr (dp_theme p)), (''genre'', JStr (dp_genre p)),
           (''sections'', JArr (map dump_SectionPlan (dp_sections p)))]"

definition dump_Section :: "section_rec \<Rightarrow> json" where
  "dump_Section s =
     JObj [(''section_id'', JInt (sec_section_id s)), (''title'', JStr (sec_title s)),
           (''content'', JStr (sec_content s)), (''verified'', JBool (sec_verified s))]"

section \<open>The planner (planner_agent.py)\<close>

text \<open>\<open>_json_to_markdown\<close>.\<close>

definition md_row :: "string list \<Rightarrow> string" where
  "md_row xs = ''| '' @ join '' | '' xs @ '' |'' @ [CHR 0x0A]"

definition json_to_markdown :: "table_data \<Rightarrow> string" where
  "json_to_markdown t =
     (if tbl_header t = [] then []
      else
        (let flat_header = map flat_header (tbl_header t) in
         md_row flat_header @ md_row (map (\<lambda>_. ''---'') flat_header)
           @ concat (map (\<lambda>row. md_row (map flat_cell row)) (tbl_data t))))"

subsection \<open>Step 0: strategy assignment\<close>

text \<open>
  \<open>_validate_strategy_assignment\<close>: the error message, empty when the assignment is
  accepted. An exception of the table helpers leaves the function.
\<close>

definition validate_strategy_assignment :: "strategy_assignment \<Rightarrow> table_data \<Rightarrow> error + string" where
  "validate_strategy_assignment assignment t =
     bindE (parse_table_header t) (\<lambda>(hdr, primary_key, idx).
     bindE (get_nonempty_cells t hdr primary_key idx) (\<lambda>expected_cells.
       (let assigned_cells = dict_keys (assignments assignment);
            missing_cells = filter (\<lambda>c. c \<notin> set assigned_cells) expected_cells
        in Inr (if missing_cells \<noteq> [] then ''Missing cells: '' @ py_repr_list missing_cells
                else []))))"

text \<open>
  The dictionary comprehension over \<open>data["assignments"]\<close>: one entry \<open>pk,col\<close> for
  every column of every primary key of the answer.
\<close>

definition flat_assignments_of :: "json \<Rightarrow> error + (string, json) dict" where
  "flat_assignments_of data =
     bindE (get_item data ''assignments'') (\<lambda>a.
     bindE (items a) (\<lambda>pks.
     bindE (map_raise (\<lambda>pk_cols.
              bindE (items (snd pk_cols)) (\<lambda>cols.
                Inr (map (\<lambda>col_strategies.
                       (fst pk_cols @ '','' @ fst col_strategies, snd col_strategies)) cols))) pks)
       (\<lambda>kvss. Inr (dict_of_items (concat kvss)))))"

text \<open>\<open>StrategyAssignment(assignments=flat_assignments)\<close>: every value is a list of strings.\<close>

definition make_StrategyAssignment :: "(string, json) dict \<Rightarrow> error + strategy_assignment" where
  "make_StrategyAssignment flat =
     bindE (as_dict (as_list as_str) (JObj flat)) (\<lambda>a. Inr \<lparr>assignments = a\<rparr>)"

text \<open>One pass of a validate-and-retry loop ends with a record or with the longer context.\<close>

datatype 'a attempt = Accepted 'a | Rejected "message list"

definition assign_attempt :: "env \<Rightarrow> config \<Rightarrow> table_data \<Rightarrow> message list
    \<Rightarrow> strategy_assignment attempt io" where
  "assign_attempt env cfg t messages =
     io_bind (call_llm env cfg messages) (\<lambda>response.
     io_bind (parse_json env response) (\<lambda>data.
     io_bind (io_lift (flat_assignments_of data)) (\<lambda>flat_assignments.
     io_bind (io_lift (make_StrategyAssignment flat_assignments)) (\<lambda>assignment.
     io_bind (io_lift (validate_strategy_assignment assignment t)) (\<lambda>error_msg.
       if error_msg = [] then io_return (Accepted assignment)
       else
         io_bind (log_msg Warning ''Strategy assignment validation failed'') (\<lambda>_.
         io_return (Rejected (messages @
           [(Assistant, Text response),
            (User, Text (''Error: '' @ error_msg
                         @ ''. Please assign strategies to all missing cells.''))]))))))))"

text \<open>\<open>for attempt in range(config.PLAN_MAX_RETRIES)\<close>; the number counts the passes left.\<close>

fun assign_loop :: "env \<Rightarrow> config \<Rightarrow> table_data \<Rightarrow> nat \<Rightarrow> message list
    \<Rightarrow> strategy_assignment io" where
  "assign_loop env cfg t 0 messages =
     io_raise (RuntimeError ''Failed to assign strategies after max retries'')"
| "assign_loop env cfg t (Suc n) messages = (\<lambda>w.
     case assign_attempt env cfg t messages w of
       (Inr (Accepted assignment), w') \<Rightarrow> (Inr assignment, w')
     | (Inr (Rejected messages'), w') \<Rightarrow> assign_loop env cfg t n messages' w'
     | (Inl e, w') \<Rightarrow>
         assign_loop env cfg t n messages
           (w'\<lparr>logs := logs w' @ [(Error, ''Failed to assign strategies'')]\<rparr>))"

definition pk_display :: "pkey \<Rightarrow> string" where
  "pk_display pk_raw =
     (case pk_raw of
        PKComposite pks \<Rightarrow> ''['' @ join '', '' pks @ ''] (composite key)''
      | PKSingle pk \<Rightarrow> pk)"

text \<open>
  \<open>assign_strategies\<close>. The strategy definitions in the prompt are a constant of
  strategies.py and not an argument of the template here.
\<close>

definition assign_strategies :: "env \<Rightarrow> config \<Rightarrow> table_data \<Rightarrow> strategy_assignment io" where
  "assign_strategies env cfg t =
     (if \<not> ENABLE_STRATEGY_ASSIGNMENT cfg then
        io_lift
          (bindE (parse_table_header t) (\<lambda>(hdr, primary_key, idx).
           bindE (get_nonempty_cells t hdr primary_key idx) (\<lambda>expected_cells.
             Inr \<lparr>assignments = dict_of_items (map (\<lambda>cell_key. (cell_key, [])) expected_cells)\<rparr>)))
      else
        assign_loop env cfg t (PLAN_MAX_RETRIES cfg)
          [(System, Template ''STRATEGY_ASSIGNMENT_SYSTEM'' []),
           (User, Template ''STRATEGY_ASSIGNMENT_PROMPT''
                    [json_to_markdown t, pk_display (tbl_primary_key t)])])"

subsection \<open>Step 2: document plan\<close>

text \<open>
  \<open>Counter(planned_facts).items()\<close>: the different facts in the order of their first
  occurrence, each with the number of its occurrences.
\<close>

fun first_occurrences :: "'a list \<Rightarrow> 'a list" where
  "first_occurrences [] = []"
| "first_occurrences (x # xs) = x # filter (\<lambda>y. y \<noteq> x) (first_occurrences xs)"

definition planned_facts :: "document_plan \<Rightarrow> string list" where
  "planned_facts plan = concat (map sp_facts (dp_sections plan))"

text \<open>The two defect lists of \<open>_validate_document_plan\<close>.\<close>

definition missing_facts :: "document_plan \<Rightarrow> string list \<Rightarrow> string list" where
  "missing_facts plan facts =
     filter (\<lambda>f. f \<notin> set (planned_facts plan)) (first_occurrences facts)"

definition duplicate_facts :: "document_plan \<Rightarrow> string list" where
  "duplicate_facts plan =
     filter (\<lambda>f. count_list (planned_facts plan) f > 1) (first_occurrences (planned_facts plan))"

definition validate_document_plan :: "document_plan \<Rightarrow> string list \<Rightarrow> string" where
  "validate_document_plan plan facts =
     (let missing = missing_facts plan facts;
          duplicates = duplicate_facts plan;
          nl2 = [CHR 0x0A, CHR 0x0A];
          error_message = [];
          error_message =
            (if missing \<noteq> [] then error_message
               @ ''Validation Error: The following facts are missing from the document plan and were not assigned to any section:''
               @ nl2 @ py_repr_list missing @ nl2 @ ''Please add them to sections.''
             else error_message);
          error_message =
            (if duplicates \<noteq> [] then
               (if error_message \<noteq> [] then error_message @ nl2 else error_message)
               @ ''Validation Error: The following facts appear multiple times in the document plan:''
               @ nl2 @ py_repr_list duplicates @ nl2
               @ ''Please ensure that each fact is assigned to only one section, remove the duplicates.''
             else error_message)
      in if error_message \<noteq> [] then error_message @ nl2
           @ ''Please revise the document plan to ensure all facts are assigned exactly once. Do not change correctly assigned facts.''
           @ [CHR 0x0A] @ ''Output the a new complete document plan in JSON format.''
         else error_message)"

text \<open>
  The primary keys of the rows, which \<open>plan_document\<close> collects when a fact map is
  given. Only an exception of this scan reaches the result: the keys feed
  \<open>pk_to_facts\<close>, which nothing reads.
\<close>

fun all_pks_loop :: "pk_index \<Rightarrow> cell list list \<Rightarrow> string list \<Rightarrow> error + string list" where
  "all_pks_loop idx [] all_pks = Inr all_pks"
| "all_pks_loop idx (row # rows) all_pks =
     (let flat_row = map flat_cell row in
      if flat_row = [] then all_pks_loop idx rows all_pks
      else bindE (row_pk_of idx flat_row) (\<lambda>r_pk. all_pks_loop idx rows (set_add all_pks r_pk)))"

text \<open>The split groups: \<open>fact_to_groups\<close> after the loop over the fact map.\<close>

fun append_group :: "string \<Rightarrow> string list \<Rightarrow> (string, string list) dict \<Rightarrow> (string, string list) dict" where
  "append_group sg_name [] fact_to_groups = fact_to_groups"
| "append_group sg_name (sf # sfs) fact_to_groups =
     append_group sg_name sfs
       (case dict_get fact_to_groups sf of
          None \<Rightarrow> fact_to_groups
        | Some gs \<Rightarrow> dict_set fact_to_groups sf (gs @ [sg_name]))"

fun group_loop :: "(string \<times> fact_writing_guidance) list \<Rightarrow> nat \<Rightarrow> (string, string list) dict
    \<Rightarrow> (string, string list) dict" where
  "group_loop [] group_counter fact_to_groups = fact_to_groups"
| "group_loop ((cell_key, guid) # rest) group_counter fact_to_groups =
     (if fg_sub_facts guid \<noteq> [] then
        group_loop rest (Suc group_counter)
          (append_group (''Group '' @ str_nat group_counter) (dict_keys (fg_sub_facts guid))
             fact_to_groups)
      else group_loop rest group_counter fact_to_groups)"

text \<open>The numbered lines of the prompt and the map from fact id to fact.\<close>

definition fact_ids :: "string list \<Rightarrow> (string, string) dict" where
  "fact_ids facts =
     dict_of_items (map (\<lambda>(idx, f). (str_nat idx, f)) (zip [1 ..< Suc (length facts)] facts))"

definition fact_line :: "(string, string list) dict \<Rightarrow> nat \<times> string \<Rightarrow> string" where
  "fact_line fact_to_groups idx_f =
     (let entry = ''- ['' @ str_nat (fst idx_f) @ ''] '' @ snd idx_f in
      case dict_get fact_to_groups (snd idx_f) of
        None \<Rightarrow> entry
      | Some gs \<Rightarrow> if gs \<noteq> [] then entry @ '' (Member of '' @ join '', '' gs @ '')'' else entry)"

text \<open>
  The bounds on the number of sections: \<open>round(len(facts) / 3)\<close> and
  \<open>round(len(facts) / 0.5)\<close>, with the two divisors of config.py.
\<close>

definition section_bounds :: "config \<Rightarrow> nat \<Rightarrow> nat \<times> nat" where
  "section_bounds cfg n =
     (let calculated_min = (n + 1) div 3; calculated_max = 2 * n in
      if calculated_max < MIN_SECTIONS cfg then (MIN_SECTIONS cfg, MAX_SECTIONS cfg)
      else (max calculated_min (MIN_SECTIONS cfg), calculated_max))"

text \<open>
  The loop that turns the fact ids of one section into fact strings: an id that is
  unknown is kept, as the source says ("If LLM returned the full fact string instead of
  ID, keep it"). The membership test raises on a list or a \<open>dict\<close>.
\<close>

fun fact_string_of :: "(string, string) dict \<Rightarrow> json \<Rightarrow> error + json" where
  "fact_string_of fact_id_to_string (JStr fid) =
     (case dict_get fact_id_to_string fid of
        Some f \<Rightarrow> Inr (JStr f)
      | None \<Rightarrow> Inr (JStr fid))"
| "fact_string_of fact_id_to_string (JArr xs) = Inl TypeError"
| "fact_string_of fact_id_to_string (JObj kvs) = Inl TypeError"
| "fact_string_of fact_id_to_string fid = Inr fid"

fun convert_section :: "(string, string) dict \<Rightarrow> json \<Rightarrow> error + json" where
  "convert_section fact_id_to_string (JObj kvs) =
     bindE (get_default (JObj kvs) ''facts'' (JArr [])) (\<lambda>fact_ids.
     bindE (py_iter fact_ids) (\<lambda>fids.
     bindE (map_raise (fact_string_of fact_id_to_string) fids) (\<lambda>fact_strings.
       Inr (JObj (dict_set kvs ''facts'' (JArr fact_strings))))))"
| "convert_section fact_id_to_string j = Inl AttributeError"

text \<open>
  \<open>section['facts'] = ...\<close> changes the section inside \<open>data\<close>, which holds the sections
  in a list: the converted sections are stored back. A \<open>sections\<close> value that is a string
  or a \<open>dict\<close> has no elements with a \<open>get\<close> method: the loop raises, or does not run when
  the value is empty, and \<open>data\<close> is left as it is.
\<close>

definition convert_fact_ids :: "(string, string) dict \<Rightarrow> json \<Rightarrow> error + json" where
  "convert_fact_ids fact_id_to_string data =
     bindE (get_default data ''sections'' (JArr [])) (\<lambda>sections.
       case sections of
         JArr secs \<Rightarrow>
           bindE (map_raise (convert_section fact_id_to_string) secs) (\<lambda>secs'.
             case data of
               JObj kvs \<Rightarrow>
                 Inr (if map_of kvs ''sections'' = None then data
                      else JObj (dict_set kvs ''sections'' (JArr secs')))
             | _ \<Rightarrow> Inl AttributeError)
       | _ \<Rightarrow>
           bindE (py_iter sections) (\<lambda>xs. if xs = [] then Inr data else Inl AttributeError))"

definition plan_attempt :: "env \<Rightarrow> config \<Rightarrow> string list \<Rightarrow> message list \<Rightarrow> document_plan attempt io" where
  "plan_attempt env cfg facts messages =
     io_bind (call_llm env cfg messages) (\<lambda>response.
     io_bind (parse_json env response) (\<lambda>data.
     io_bind (io_lift (convert_fact_ids (fact_ids facts) data)) (\<lambda>data'.
     io_bind (io_lift (DocumentPlan_of data')) (\<lambda>plan.
       (let error_msg = validate_document_plan plan facts in
        if error_msg = [] then io_return (Accepted plan)
        else
          io_bind (log_msg Warning ''Document plan validation failed'') (\<lambda>_.
          io_return (Rejected (messages @
            [(Assistant, Text response),
             (User, Text (''Error: '' @ error_msg @ ''. Fix the plan.''))]))))))))"

fun plan_loop :: "env \<Rightarrow> config \<Rightarrow> string list \<Rightarrow> nat \<Rightarrow> message list \<Rightarrow> document_plan io" where
  "plan_loop env cfg facts 0 messages =
     io_raise (RuntimeError ''Failed to plan document after max retries'')"
| "plan_loop env cfg facts (Suc n) messages = (\<lambda>w.
     case plan_attempt env cfg facts messages w of
       (Inr (Accepted plan), w') \<Rightarrow> (Inr plan, w')
     | (Inr (Rejected messages'), w') \<Rightarrow> plan_loop env cfg facts n messages' w'
     | (Inl e, w') \<Rightarrow>
         plan_loop env cfg facts n messages
           (w'\<lparr>logs := logs w' @ [(Error, ''Failed to plan document'')]\<rparr>))"

text \<open>The first two messages of the planning conversation.\<close>

definition plan_messages :: "config \<Rightarrow> string list \<Rightarrow> (string, string list) dict \<Rightarrow> message list" where
  "plan_messages cfg facts fact_to_groups =
     (let facts_list = join [CHR 0x0A]
            (map (fact_line fact_to_groups) (zip [1 ..< Suc (length facts)] facts));
          dispersion_guidance =
            (if DISPERSION_STRATEGY cfg = ''sparse'' then ''SPARSE_DISPERSION_GUIDANCE''
             else ''DENSE_DISPERSION_GUIDANCE'');
          bounds = section_bounds cfg (length facts)
      in [(System, Template ''DOCUMENT_PLAN_SYSTEM'' []),
          (User, Template ''DOCUMENT_PLAN_PROMPT''
                   [str_nat (fst bounds), str_nat (snd bounds), dispersion_guidance, facts_list])])"

definition plan_document :: "env \<Rightarrow> config \<Rightarrow> string list \<Rightarrow> table_data
    \<Rightarrow> (string, fact_writing_guidance) dict \<Rightarrow> document_plan io" where
  "plan_document env cfg facts t fact_map =
     (let fact_to_groups = dict_of_items (map (\<lambda>f. (f, [])) facts) in
      io_bind
        (io_lift
          (if fact_map \<noteq> [] then
             bindE (parse_table_header t) (\<lambda>(hdr, primary_key, idx).
             bindE (all_pks_loop idx (tbl_data t) []) (\<lambda>all_pks.
               Inr (group_loop fact_map 1 fact_to_groups)))
           else Inr fact_to_groups))
        (\<lambda>fact_to_groups.
           plan_loop env cfg facts (PLAN_MAX_RETRIES cfg) (plan_messages cfg facts fact_to_groups)))"

section \<open>The writer and the verifier (writer_agent.py, verifier_agent.py)\<close>

text \<open>
  The text of an exception, as \<open>f"{e}"\<close> shows it. For the exceptions of libraries the
  text is abbreviated to the name of the exception.
\<close>

fun exc_text :: "error \<Rightarrow> string" where
  "exc_text (KeyError k) = [CHR 0x27] @ k @ [CHR 0x27]"
| "exc_text (RuntimeError s) = s"
| "exc_text IndexError = ''IndexError''"
| "exc_text ValueError = ''ValueError''"
| "exc_text JSONDecodeError = ''JSONDecodeError''"
| "exc_text ValidationError = ''ValidationError''"
| "exc_text TypeError = ''TypeError''"
| "exc_text AttributeError = ''AttributeError''"
| "exc_text APIError = ''APIError''"
| "exc_text OSError = ''OSError''"

text \<open>
  The reverse lookup from fact strings to fact objects that the three functions build:
  each object under its fact and under each of its sub-facts, a later object replacing
  an earlier one under the same string.
\<close>

definition add_fact_obj :: "(string, fact_writing_guidance) dict \<Rightarrow> fact_writing_guidance
    \<Rightarrow> (string, fact_writing_guidance) dict" where
  "add_fact_obj fact_lookup fact_obj =
     foldl (\<lambda>lk sub_fact. dict_set lk sub_fact fact_obj)
       (dict_set fact_lookup (fg_fact fact_obj) fact_obj)
       (dict_keys (fg_sub_facts fact_obj))"

definition build_fact_lookup :: "(string, fact_writing_guidance) dict
    \<Rightarrow> (string, fact_writing_guidance) dict" where
  "build_fact_lookup fact_map = foldl add_fact_obj [] (dict_values fact_map)"

text \<open>
  What one fact of the section plan adds to \<open>facts_with_guidance\<close>: the object it was
  found under, with the pairs of fact and guidance, in order. \<open>write_section\<close> and
  \<open>verify_section\<close> have the same three branches.
\<close>

definition write_entries :: "(string, fact_writing_guidance) dict \<Rightarrow> string
    \<Rightarrow> (fact_writing_guidance \<times> string \<times> string) list" where
  "write_entries fact_lookup fact_str =
     (case dict_get fact_lookup fact_str of
        None \<Rightarrow> []
      | Some fact_obj \<Rightarrow>
          (case dict_get (fg_sub_facts fact_obj) fact_str of
             Some sub_guidance \<Rightarrow> [(fact_obj, fact_str, sub_guidance)]
           | None \<Rightarrow>
               if fg_sub_facts fact_obj \<noteq> []
               then map (\<lambda>kv. (fact_obj, fst kv, snd kv)) (fg_sub_facts fact_obj)
               else [(fact_obj, fact_str, fg_writing_guidance fact_obj)]))"

definition verify_entries :: "(string, fact_writing_guidance) dict \<Rightarrow> string
    \<Rightarrow> (fact_writing_guidance \<times> string \<times> string) list" where
  "verify_entries fact_lookup fact_str =
     (case dict_get fact_lookup fact_str of
        None \<Rightarrow> []
      | Some fact_obj \<Rightarrow>
          (case dict_get (fg_sub_facts fact_obj) fact_str of
             Some sub_guidance \<Rightarrow> [(fact_obj, fact_str, sub_guidance)]
           | None \<Rightarrow>
               if fg_sub_facts fact_obj \<noteq> []
               then map (\<lambda>kv. (fact_obj, fst kv, snd kv)) (fg_sub_facts fact_obj)
               else [(fact_obj, fact_str, fg_writing_guidance fact_obj)]))"

text \<open>
  \<open>repair_section\<close> has two branches: "If it's the main fact, include it and all
  sub_facts if any".
\<close>

definition repair_entries :: "(string, fact_writing_guidance) dict \<Rightarrow> string
    \<Rightarrow> (fact_writing_guidance \<times> string \<times> string) list" where
  "repair_entries fact_lookup fact_str =
     (case dict_get fact_lookup fact_str of
        None \<Rightarrow> []
      | Some fact_obj \<Rightarrow>
          (case dict_get (fg_sub_facts fact_obj) fact_str of
             Some sub_guidance \<Rightarrow> [(fact_obj, fact_str, sub_guidance)]
           | None \<Rightarrow>
               (fact_obj, fact_str, fg_writing_guidance fact_obj)
               # map (\<lambda>kv. (fact_obj, fst kv, snd kv)) (fg_sub_facts fact_obj)))"

text \<open>The lines of the prompt for one pair.\<close>

definition fact_entry :: "fact_writing_guidance \<times> string \<times> string \<Rightarrow> string" where
  "fact_entry e =
     ''- **Fact:** '' @ fst (snd e) @ [CHR 0x0A] @ ''  **Guidance:** '' @ snd (snd e)"

definition cell_fact_entry :: "fact_writing_guidance \<times> string \<times> string \<Rightarrow> string" where
  "cell_fact_entry e =
     ''- **Cell:** '' @ fg_primary_key (fst e) @ ''+'' @ fg_attribute (fst e) @ [CHR 0x0A]
     @ ''  **Fact:** '' @ fst (snd e) @ [CHR 0x0A] @ ''  **Guidance:** '' @ snd (snd e)"

definition write_facts_with_guidance :: "section_plan \<Rightarrow> (string, fact_writing_guidance) dict
    \<Rightarrow> string list" where
  "write_facts_with_guidance section_plan fact_map =
     map fact_entry (concat (map (write_entries (build_fact_lookup fact_map)) (sp_facts section_plan)))"

definition verify_facts_with_guidance :: "section_plan \<Rightarrow> (string, fact_writing_guidance) dict
    \<Rightarrow> string list" where
  "verify_facts_with_guidance section_plan fact_map =
     map cell_fact_entry
       (concat (map (verify_entries (build_fact_lookup fact_map)) (sp_facts section_plan)))"

definition repair_facts_with_guidance :: "section_plan \<Rightarrow> (string, fact_writing_guidance) dict
    \<Rightarrow> string list" where
  "repair_facts_with_guidance section_plan fact_map =
     map fact_entry (concat (map (repair_entries (build_fact_lookup fact_map)) (sp_facts section_plan)))"

subsection \<open>Step 3: write a section\<close>

definition write_section :: "env \<Rightarrow> config \<Rightarrow> section_plan \<Rightarrow> (string, fact_writing_guidance) dict
    \<Rightarrow> string \<Rightarrow> string \<Rightarrow> string option \<Rightarrow> string io" where
  "write_section env cfg section_plan fact_map theme genre previous_summary =
     (let facts_with_guidance = write_facts_with_guidance section_plan fact_map;
          facts_text = (if facts_with_guidance \<noteq> [] then join [CHR 0x0A] facts_with_guidance
                        else ''No specific facts assigned.'');
          prev_summary_text =
            (case previous_summary of
               Some s \<Rightarrow> if s \<noteq> [] then s else ''This is the first section of the document.''
             | None \<Rightarrow> ''This is the first section of the document.'');
          messages =
            [(System, Template ''WRITE_SECTION_SYSTEM'' []),
             (User, Template ''WRITE_SECTION_PROMPT''
                      [theme, genre, prev_summary_text, sp_title section_plan,
                       sp_summary section_plan, sp_goal section_plan, facts_text])]
      in io_try (call_llm env cfg messages)
           (\<lambda>e. io_bind (log_msg Error ''Failed to write section'') (\<lambda>_. io_return [])))"

subsection \<open>Step 4: verify and repair a section\<close>

definition verify_messages :: "string \<Rightarrow> section_plan \<Rightarrow> (string, fact_writing_guidance) dict
    \<Rightarrow> table_data \<Rightarrow> message list" where
  "verify_messages content section_plan fact_map t =
     (let markdown_table = json_to_markdown t;
          facts_text = join [CHR 0x0A] (verify_facts_with_guidance section_plan fact_map)
      in [(System, Template ''VERIFY_SECTION_SYSTEM'' []),
          (User, Template ''VERIFY_SECTION_PROMPT''
                   [markdown_table, sp_title section_plan, content, facts_text])])"

text \<open>The body of the \<open>try\<close> of \<open>verify_section\<close>.\<close>

definition verify_request :: "env \<Rightarrow> config \<Rightarrow> message list \<Rightarrow> verification_result io" where
  "verify_request env cfg messages =
     io_bind (call_llm env cfg messages) (\<lambda>response.
     io_bind (parse_json env response) (\<lambda>data.
     io_lift (VerificationResult_of data)))"

definition verify_section :: "env \<Rightarrow> config \<Rightarrow> string \<Rightarrow> section_plan
    \<Rightarrow> (string, fact_writing_guidance) dict \<Rightarrow> table_data \<Rightarrow> strategy_assignment
    \<Rightarrow> verification_result io" where
  "verify_section env cfg content section_plan fact_map t strategy_assignment =
     io_try (verify_request env cfg (verify_messages content section_plan fact_map t))
       (\<lambda>e. io_bind (log_msg Error ''Section verification failed'') (\<lambda>_.
          io_return \<lparr>vr_ok = False,
                      vr_errors = [[(''description'', ''Verification error: '' @ exc_text e),
                                    (''suggestion'', ''Retry'')]]\<rparr>))"

text \<open>\<open>f"- {e['description']}: {e['suggestion']}"\<close>: a missing key raises \<open>KeyError\<close>.\<close>

definition error_line :: "(string, string) dict \<Rightarrow> error + string" where
  "error_line e =
     (case dict_get e ''description'' of
        None \<Rightarrow> Inl (KeyError ''description'')
      | Some d \<Rightarrow>
          (case dict_get e ''suggestion'' of
             None \<Rightarrow> Inl (KeyError ''suggestion'')
           | Some s \<Rightarrow> Inr (''- '' @ d @ '': '' @ s)))"

definition repair_messages :: "string \<Rightarrow> section_plan \<Rightarrow> (string, fact_writing_guidance) dict
    \<Rightarrow> string list \<Rightarrow> message list" where
  "repair_messages original_content section_plan fact_map error_lines =
     (let facts_text = join [CHR 0x0A] (repair_facts_with_guidance section_plan fact_map);
          errors_text = join [CHR 0x0A] error_lines
      in [(System, Template ''REPAIR_SECTION_SYSTEM'' []),
          (User, Template ''REPAIR_SECTION_PROMPT'' [original_content, errors_text, facts_text])])"

definition repair_section :: "env \<Rightarrow> config \<Rightarrow> string \<Rightarrow> section_plan
    \<Rightarrow> (string, fact_writing_guidance) dict \<Rightarrow> (string, string) dict list \<Rightarrow> string io" where
  "repair_section env cfg original_content section_plan fact_map errs =
     io_bind (io_lift (map_raise error_line errs)) (\<lambda>error_lines.
       io_try (call_llm env cfg (repair_messages original_content section_plan fact_map error_lines))
         (\<lambda>e. io_bind (log_msg Error ''Failed to repair section'') (\<lambda>_.
            io_return original_content)))"

section \<open>The refiner (refiner_agent.py)\<close>

subsection \<open>Text helpers\<close>

text \<open>
  \<open>s.replace(old, new)\<close>, \<open>s.split(sep)\<close> and \<open>s.rsplit(",", 1)\<close>. The number counts
  the characters still to skip after a match.
\<close>

fun replace_aux :: "string \<Rightarrow> string \<Rightarrow> nat \<Rightarrow> string \<Rightarrow> string" where
  "replace_aux old new skip [] = []"
| "replace_aux old new (Suc k) (c # cs) = replace_aux old new k cs"
| "replace_aux old new 0 (c # cs) =
     (if old \<noteq> [] \<and> take (length old) (c # cs) = old
      then new @ replace_aux old new (length old - 1) cs
      else c # replace_aux old new 0 cs)"

definition str_replace :: "string \<Rightarrow> string \<Rightarrow> string \<Rightarrow> string" where
  "str_replace s old new = replace_aux old new 0 s"

fun split_aux :: "string \<Rightarrow> nat \<Rightarrow> string \<Rightarrow> string \<Rightarrow> string list" where
  "split_aux sep skip cur [] = [cur]"
| "split_aux sep (Suc k) cur (c # cs) = split_aux sep k cur cs"
| "split_aux sep 0 cur (c # cs) =
     (if sep \<noteq> [] \<and> take (length sep) (c # cs) = sep
      then cur # split_aux sep (length sep - 1) [] cs
      else split_aux sep 0 (cur @ [c]) cs)"

definition str_split :: "string \<Rightarrow> string \<Rightarrow> string list" where
  "str_split s sep = split_aux sep 0 [] s"

text \<open>\<open>pk, attr = cell_key.rsplit(",", 1)\<close>: without a comma the unpacking raises.\<close>

definition rsplit_comma :: "string \<Rightarrow> error + (string \<times> string)" where
  "rsplit_comma s =
     (case str_rfind s (CHR '','') of
        None \<Rightarrow> Inl ValueError
      | Some i \<Rightarrow> Inr (take i s, drop (Suc i) s))"

definition endswith :: "string \<Rightarrow> string \<Rightarrow> bool" where
  "endswith s suffix = (length suffix \<le> length s \<and> drop (length s - length suffix) s = suffix)"

text \<open>\<open>safe_filename\<close> of utils.py.\<close>

definition safe_filename :: "string \<Rightarrow> string" where
  "safe_filename text =
     take 100 (map (\<lambda>c. if c = CHR '' '' then CHR ''_'' else c)
       (filter (\<lambda>c. c \<notin> set [CHR 0x5C, CHR ''/'', CHR ''*'', CHR ''?'', CHR '':'', CHR 0x22,
                                CHR ''<'', CHR ''>'', CHR ''|'']) text))"

text \<open>
  The text of a parsed value inside an f-string, and \<open>json.dumps\<close>. Strings are exact up
  to escapes; the text of a value that is no string follows \<open>json.dumps\<close>.
\<close>

fun json_dumps :: "json \<Rightarrow> string" where
  "json_dumps JNull = ''null''"
| "json_dumps (JBool b) = (if b then ''true'' else ''false'')"
| "json_dumps (JInt i) = str_int i"
| "json_dumps (JStr s) = [CHR 0x22] @ s @ [CHR 0x22]"
| "json_dumps (JArr xs) = ''['' @ join '', '' (map json_dumps xs) @ '']''"
| "json_dumps (JObj kvs) =
     ''{'' @ join '', '' (map (\<lambda>kv. [CHR 0x22] @ fst kv @ [CHR 0x22] @ '': '' @ json_dumps (snd kv)) kvs)
     @ ''}''"

fun json_text :: "json \<Rightarrow> string" where
  "json_text (JStr s) = s"
| "json_text j = json_dumps j"

text \<open>
  The texts of strategies.py are not modelled: the definition of strategy \<open>s\<close> is the
  name of the table with the key. The tables have the nine keys below.
\<close>

definition STRATEGY_KEYS :: "string list" where
  "STRATEGY_KEYS = [''T1'', ''T2'', ''T3'', ''R1'', ''R2'', ''R3'', ''R4'', ''D1'', ''D2'']"

definition strategy_definitions :: "string \<Rightarrow> string list \<Rightarrow> string" where
  "strategy_definitions table strategies =
     join [CHR 0x0A, CHR 0x0A]
       (map (\<lambda>s. table @ ''['' @ s @ '']'') (filter (\<lambda>s. s \<in> set STRATEGY_KEYS) strategies))"

subsection \<open>Table helpers\<close>

text \<open>\<open>_get_pk_description\<close>.\<close>

definition get_pk_description :: "string \<Rightarrow> table_data \<Rightarrow> string" where
  "get_pk_description pk_value t =
     (case tbl_primary_key t of
        PKComposite primary_key \<Rightarrow>
          (let pk_parts = str_split pk_value '', '' in
           if length pk_parts = length primary_key
           then ''the record with ''
                @ join '' and '' (map (\<lambda>cv. fst cv @ ''='' @ [CHR 0x27] @ snd cv @ [CHR 0x27])
                                   (zip primary_key pk_parts))
           else [CHR 0x27] @ pk_value @ [CHR 0x27])
      | PKSingle pk \<Rightarrow> [CHR 0x27] @ pk_value @ [CHR 0x27])"

text \<open>\<open>_build_row_lookup\<close>: from the primary-key value of a row to its cells by column name.\<close>

fun build_row_lookup_loop :: "string list \<Rightarrow> pk_index \<Rightarrow> cell list list
    \<Rightarrow> (string, (string, string) dict) dict \<Rightarrow> error + (string, (string, string) dict) dict" where
  "build_row_lookup_loop hdr idx [] lookup = Inr lookup"
| "build_row_lookup_loop hdr idx (row # rows) lookup =
     (let flat_row = map flat_cell row in
      if flat_row = [] then build_row_lookup_loop hdr idx rows lookup
      else bindE (row_pk_of idx flat_row) (\<lambda>pk_val.
             build_row_lookup_loop hdr idx rows
               (dict_set lookup pk_val (dict_of_items (zip hdr flat_row)))))"

definition build_row_lookup :: "table_data \<Rightarrow> string list \<Rightarrow> string \<Rightarrow> pk_index
    \<Rightarrow> error + (string, (string, string) dict) dict" where
  "build_row_lookup t hdr primary_key idx = build_row_lookup_loop hdr idx (tbl_data t) []"

text \<open>\<open>_json_to_markdown\<close> of the refiner: no test for an empty header.\<close>

definition refiner_json_to_markdown :: "table_data \<Rightarrow> string" where
  "refiner_json_to_markdown t =
     (let flat_header = map flat_header (tbl_header t) in
      md_row flat_header @ md_row (map (\<lambda>_. ''---'') flat_header)
        @ concat (map (\<lambda>row. md_row (map flat_cell row)) (tbl_data t)))"

subsection \<open>Step 1a: cell guidance\<close>

text \<open>
  The verdict of a verification answer, as \<open>_verify_cell_guidance\<close> and
  \<open>_verify_fact_guidance\<close> read it: \<open>(ok, error_text)\<close>.
\<close>

definition error_message_of :: "json \<Rightarrow> error + string" where
  "error_message_of err =
     bindE (get_item err ''description'') (\<lambda>desc.
     bindE (get_item err ''suggestion'') (\<lambda>sugg.
       Inr (''Error: '' @ json_text desc @ [CHR 0x0A] @ ''Suggestion: '' @ json_text sugg)))"

definition read_verdict :: "json \<Rightarrow> error + (bool \<times> string)" where
  "read_verdict data =
     bindE (get_item data ''ok'') (\<lambda>ok.
       if \<not> truthy ok then
         bindE (get_item data ''errors'') (\<lambda>errs.
         bindE (py_iter errs) (\<lambda>errs.
         bindE (map_raise error_message_of errs) (\<lambda>error_messages.
           Inr (False,
                if error_messages \<noteq> [] then join [CHR 0x0A, CHR 0x0A] error_messages
                else ''Verification failed without specific errors.''))))
       else Inr (True, []))"

definition json_dumps_strings :: "string list \<Rightarrow> string" where
  "json_dumps_strings xs = json_dumps (JArr (map JStr xs))"

definition verify_cell_guidance :: "env \<Rightarrow> config \<Rightarrow> string \<Rightarrow> string \<Rightarrow> string \<Rightarrow> string list
    \<Rightarrow> json \<Rightarrow> string \<Rightarrow> table_data \<Rightarrow> (bool \<times> string) io" where
  "verify_cell_guidance env cfg pk attr val strategies guidance markdown_table t =
     (let short_defs = strategy_definitions ''SHORT_STRATEGY_DEFINITIONS'' strategies;
          pk_display = get_pk_description pk t;
          messages =
            [(System, Template ''CELL_GUIDANCE_VERIFY_SYSTEM'' []),
             (User, Template ''CELL_GUIDANCE_VERIFY_PROMPT''
                      [markdown_table, pk_display, attr, val, json_dumps_strings strategies,
                       json_text guidance, short_defs])]
      in io_bind (call_llm env cfg messages) (\<lambda>response.
         io_bind (parse_json env response) (\<lambda>data.
         io_lift (read_verdict data))))"

definition cell_guidance_messages :: "string \<Rightarrow> string \<Rightarrow> string \<Rightarrow> string list \<Rightarrow> string
    \<Rightarrow> table_data \<Rightarrow> message list" where
  "cell_guidance_messages pk attr val strategies markdown_table t =
     [(System, Template ''CELL_GUIDANCE_SYSTEM'' []),
      (User, Template ''CELL_GUIDANCE_PROMPT''
               [markdown_table, get_pk_description pk t, attr, val, json_dumps_strings strategies,
                strategy_definitions ''DETAILED_STRATEGY_DEFINITIONS'' strategies])]"

text \<open>One pass of the loop of \<open>_generate_cell_guidance\<close>.\<close>

definition cell_guidance_attempt :: "env \<Rightarrow> config \<Rightarrow> string \<Rightarrow> string \<Rightarrow> string \<Rightarrow> string list
    \<Rightarrow> string \<Rightarrow> path \<Rightarrow> table_data \<Rightarrow> message list \<Rightarrow> json attempt io" where
  "cell_guidance_attempt env cfg pk attr val strategies markdown_table cache_path t messages =
     io_bind (call_llm env cfg messages) (\<lambda>response.
     io_bind (parse_json env response) (\<lambda>data.
     io_bind (io_lift (get_item data ''guidance'')) (\<lambda>guidance.
     io_bind (verify_cell_guidance env cfg pk attr val strategies guidance markdown_table t)
       (\<lambda>(ok, error_msg).
          if ok then
            io_bind (write_json env cache_path (JObj [(''guidance'', guidance)])) (\<lambda>_.
            io_return (Accepted guidance))
          else
            io_bind (log_msg Warning ''Cell guidance verification failed, retrying...'') (\<lambda>_.
            io_return (Rejected (messages @
              [(Assistant, Text response),
               (User, Text (''The guidance failed verification.'' @ [CHR 0x0A, CHR 0x0A] @ error_msg
                            @ [CHR 0x0A, CHR 0x0A]
                            @ ''Please revise based on the suggestions above.''))])))))))"

text \<open>The loop: an exception puts the first two messages back; \<open>None\<close> after the last pass.\<close>

fun cell_guidance_loop :: "env \<Rightarrow> config \<Rightarrow> string \<Rightarrow> string \<Rightarrow> string \<Rightarrow> string list
    \<Rightarrow> string \<Rightarrow> path \<Rightarrow> table_data \<Rightarrow> nat \<Rightarrow> message list \<Rightarrow> json option io" where
  "cell_guidance_loop env cfg pk attr val strategies markdown_table cache_path t 0 messages =
     io_return None"
| "cell_guidance_loop env cfg pk attr val strategies markdown_table cache_path t (Suc n) messages =
     (\<lambda>w. case cell_guidance_attempt env cfg pk attr val strategies markdown_table cache_path t
                  messages w of
        (Inr (Accepted guidance), w') \<Rightarrow> (Inr (Some guidance), w')
      | (Inr (Rejected messages'), w') \<Rightarrow>
          cell_guidance_loop env cfg pk attr val strategies markdown_table cache_path t n messages' w'
      | (Inl e, w') \<Rightarrow>
          cell_guidance_loop env cfg pk attr val strategies markdown_table cache_path t n
            (cell_guidance_messages pk attr val strategies markdown_table t)
            (w'\<lparr>logs := logs w' @ [(Error, ''Failed to generate cell guidance'')]\<rparr>))"

text \<open>What \<open>_generate_cell_guidance\<close> does when the cache gives nothing.\<close>

definition generate_cell_guidance_fresh :: "env \<Rightarrow> config \<Rightarrow> string \<Rightarrow> string \<Rightarrow> string
    \<Rightarrow> string list \<Rightarrow> string \<Rightarrow> path \<Rightarrow> table_data \<Rightarrow> json option io" where
  "generate_cell_guidance_fresh env cfg pk attr val strategies markdown_table cache_path t =
     (if strategies = [] then
        (let pk_desc = get_pk_description pk t;
             guidance = ''Naturally weave into the narrative that the '' @ [CHR 0x27] @ attr
               @ [CHR 0x27] @ '' for '' @ pk_desc @ '' is '' @ [CHR 0x27] @ val @ [CHR 0x27]
               @ ''. Avoid merely listing the fact; it should be integrated smoothly into a descriptive sentence or analytical point.''
         in io_bind (write_json env cache_path (JObj [(''guidance'', JStr guidance)])) (\<lambda>_.
            io_return (Some (JStr guidance))))
      else
        cell_guidance_loop env cfg pk attr val strategies markdown_table cache_path t
          (REFINE_MAX_RETRIES cfg) (cell_guidance_messages pk attr val strategies markdown_table t))"

definition generate_cell_guidance :: "env \<Rightarrow> config \<Rightarrow> string \<Rightarrow> string \<Rightarrow> string \<Rightarrow> string list
    \<Rightarrow> string \<Rightarrow> path \<Rightarrow> string \<Rightarrow> table_data \<Rightarrow> json option io" where
  "generate_cell_guidance env cfg pk attr val strategies markdown_table cache_dir cache_key t =
     (let cache_path = cache_dir @ [cache_key @ ''.json''];
          fresh = generate_cell_guidance_fresh env cfg pk attr val strategies markdown_table
                    cache_path t
      in io_bind (path_exists cache_path) (\<lambda>exists.
           if exists then
             io_try
               (io_bind (read_json cache_path) (\<lambda>data.
                io_bind (io_lift (get_item data ''guidance'')) (\<lambda>guidance.
                io_return (Some guidance))))
               (\<lambda>e. io_bind (log_msg Warning ''Failed to load cell guidance cache'') (\<lambda>_. fresh))
           else fresh))"

subsection \<open>Step 1b: fact guidance\<close>

definition verify_fact_guidance :: "env \<Rightarrow> config \<Rightarrow> string \<Rightarrow> string \<Rightarrow> json \<Rightarrow> string \<Rightarrow> json
    \<Rightarrow> (bool \<times> string) io" where
  "verify_fact_guidance env cfg attr val original_guidance original_fact sub_facts =
     (let messages =
            [(System, Template ''FACT_GUIDANCE_VERIFY_SYSTEM'' []),
             (User, Template ''FACT_GUIDANCE_VERIFY_PROMPT''
                      [attr, val, json_text original_guidance, original_fact, json_dumps sub_facts])]
      in io_try
           (io_bind (call_llm env cfg messages) (\<lambda>response.
            io_bind (parse_json env response) (\<lambda>data.
            io_lift (read_verdict data))))
           (\<lambda>e. io_bind (log_msg Error ''Fact guidance verification failed'') (\<lambda>_.
              io_return (False, ''Verification exception: '' @ exc_text e))))"

definition fact_guidance_messages :: "string \<Rightarrow> string \<Rightarrow> string \<Rightarrow> json \<Rightarrow> message list" where
  "fact_guidance_messages pk attr val cell_guidance =
     [(System, Template ''FACT_GUIDANCE_SYSTEM'' []),
      (User, Template ''FACT_GUIDANCE_PROMPT'' [pk, attr, val, json_text cell_guidance])]"

text \<open>\<open>FactWritingGuidance(...)\<close> with the guidance and the sub-facts as they were parsed.\<close>

definition make_FactWritingGuidance :: "string \<Rightarrow> string \<Rightarrow> string \<Rightarrow> json \<Rightarrow> json
    \<Rightarrow> error + fact_writing_guidance" where
  "make_FactWritingGuidance pk attr main_fact writing_guidance sub_facts =
     bindE (as_str writing_guidance) (\<lambda>g.
     bindE (as_dict as_str sub_facts) (\<lambda>sf.
       Inr \<lparr>fg_primary_key = pk, fg_attribute = attr, fg_fact = main_fact,
            fg_writing_guidance = g, fg_sub_facts = sf\<rparr>))"

text \<open>One pass of the loop of \<open>_generate_fact_guidance\<close>.\<close>

definition fact_guidance_attempt :: "env \<Rightarrow> config \<Rightarrow> string \<Rightarrow> string \<Rightarrow> string \<Rightarrow> json \<Rightarrow> string
    \<Rightarrow> path \<Rightarrow> message list \<Rightarrow> fact_writing_guidance attempt io" where
  "fact_guidance_attempt env cfg pk attr val cell_guidance main_fact cache_path messages =
     io_bind (call_llm env cfg messages) (\<lambda>response.
     io_bind (parse_json env response) (\<lambda>data.
     io_bind (io_lift (get_item data ''is_split'')) (\<lambda>is_split.
       if truthy is_split then
         io_bind (io_lift (get_item data ''sub_facts'')) (\<lambda>sub_facts_dict.
         io_bind (io_lift (make_FactWritingGuidance pk attr main_fact (JStr []) sub_facts_dict))
           (\<lambda>fact_obj.
         io_bind (verify_fact_guidance env cfg attr val cell_guidance main_fact sub_facts_dict)
           (\<lambda>(ok, error_msg).
              if \<not> ok then
                io_bind (log_msg Warning ''Fact guidance verification failed, retrying...'') (\<lambda>_.
                io_return (Rejected (messages @
                  [(Assistant, Text response),
                   (User, Text (''The fact guidance failed verification.'' @ [CHR 0x0A, CHR 0x0A]
                                @ error_msg @ [CHR 0x0A, CHR 0x0A]
                                @ ''Please revise based on the suggestions above.''))])))
              else
                io_bind (write_json env cache_path (dump_FactWritingGuidance fact_obj)) (\<lambda>_.
                io_return (Accepted fact_obj)))))
       else
         io_bind (io_lift (make_FactWritingGuidance pk attr main_fact cell_guidance (JObj [])))
           (\<lambda>fact_obj.
         io_bind (write_json env cache_path (dump_FactWritingGuidance fact_obj)) (\<lambda>_.
         io_return (Accepted fact_obj))))))"

fun fact_guidance_loop :: "env \<Rightarrow> config \<Rightarrow> string \<Rightarrow> string \<Rightarrow> string \<Rightarrow> json \<Rightarrow> string
    \<Rightarrow> path \<Rightarrow> nat \<Rightarrow> message list \<Rightarrow> fact_writing_guidance option io" where
  "fact_guidance_loop env cfg pk attr val cell_guidance main_fact cache_path 0 messages =
     io_return None"
| "fact_guidance_loop env cfg pk attr val cell_guidance main_fact cache_path (Suc n) messages =
     (\<lambda>w. case fact_guidance_attempt env cfg pk attr val cell_guidance main_fact cache_path
                  messages w of
        (Inr (Accepted fact_obj), w') \<Rightarrow> (Inr (Some fact_obj), w')
      | (Inr (Rejected messages'), w') \<Rightarrow>
          fact_guidance_loop env cfg pk attr val cell_guidance main_fact cache_path n messages' w'
      | (Inl e, w') \<Rightarrow>
          fact_guidance_loop env cfg pk attr val cell_guidance main_fact cache_path n
            (fact_guidance_messages pk attr val cell_guidance)
            (w'\<lparr>logs := logs w' @ [(Error, ''Failed to generate fact guidance'')]\<rparr>))"

text \<open>\<open>s.startswith('R') or s.startswith('D')\<close>.\<close>

definition starts_R_or_D :: "string \<Rightarrow> bool" where
  "starts_R_or_D s = (case s of [] \<Rightarrow> False | c # cs \<Rightarrow> c = CHR ''R'' \<or> c = CHR ''D'')"

definition generate_fact_guidance :: "env \<Rightarrow> config \<Rightarrow> string \<Rightarrow> string \<Rightarrow> string \<Rightarrow> json
    \<Rightarrow> string list \<Rightarrow> string \<Rightarrow> path \<Rightarrow> table_data \<Rightarrow> fact_writing_guidance option io" where
  "generate_fact_guidance env cfg pk attr val cell_guidance strategies markdown_table cache_path t =
     (let pk_desc = get_pk_description pk t;
          main_fact = ''The '' @ attr @ '' for '' @ pk_desc @ '' is '' @ val;
          has_r_or_d = (\<exists>s \<in> set strategies. starts_R_or_D s)
      in if \<not> has_r_or_d then
           io_bind (io_lift (make_FactWritingGuidance pk attr main_fact cell_guidance (JObj [])))
             (\<lambda>fact_obj.
           io_bind (write_json env cache_path (dump_FactWritingGuidance fact_obj)) (\<lambda>_.
           io_return (Some fact_obj)))
         else
           fact_guidance_loop env cfg pk attr val cell_guidance main_fact cache_path
             (REFINE_MAX_RETRIES cfg) (fact_guidance_messages pk attr val cell_guidance))"

subsection \<open>One cell, all cells\<close>

text \<open>\<open>_process_single_cell\<close> from the test of the fact cache on.\<close>

definition process_cell_fresh :: "env \<Rightarrow> config \<Rightarrow> string \<Rightarrow> string \<Rightarrow> string \<Rightarrow> string list
    \<Rightarrow> string \<Rightarrow> path \<Rightarrow> path \<Rightarrow> string \<Rightarrow> table_data \<Rightarrow> fact_writing_guidance option io" where
  "process_cell_fresh env cfg pk attr val strategies markdown_table cell_cache_dir fact_cache_path
       cache_key t =
     io_bind (generate_cell_guidance env cfg pk attr val strategies markdown_table cell_cache_dir
                cache_key t)
       (\<lambda>cell_guidance.
          case cell_guidance of
            None \<Rightarrow>
              io_bind (log_msg Error ''Failed to generate cell guidance after all retries.'') (\<lambda>_.
              io_raise (RuntimeError ''Failed to generate cell guidance after all retries.''))
          | Some g \<Rightarrow>
              if \<not> truthy g then
                io_bind (log_msg Error ''Failed to generate cell guidance after all retries.'') (\<lambda>_.
                io_raise (RuntimeError ''Failed to generate cell guidance after all retries.''))
              else
                generate_fact_guidance env cfg pk attr val g strategies markdown_table
                  fact_cache_path t)"

definition process_single_cell :: "env \<Rightarrow> config \<Rightarrow> string \<Rightarrow> string \<Rightarrow> string list
    \<Rightarrow> (string, (string, string) dict) dict \<Rightarrow> string \<Rightarrow> path \<Rightarrow> path \<Rightarrow> string \<Rightarrow> table_data
    \<Rightarrow> fact_writing_guidance option io" where
  "process_single_cell env cfg pk attr strategies row_lookup markdown_table cell_cache_dir
       fact_cache_dir cache_key t =
     (case dict_get row_lookup pk of
        None \<Rightarrow> io_raise (KeyError pk)
      | Some row \<Rightarrow>
          if row = [] then
            io_bind (log_msg Error ''Row not found for PK'') (\<lambda>_. io_return None)
          else
            (case dict_get row attr of
               None \<Rightarrow> io_raise (KeyError attr)
             | Some val \<Rightarrow>
                 (let fact_cache_path = fact_cache_dir @ [cache_key @ ''.json''];
                      fresh = process_cell_fresh env cfg pk attr val strategies markdown_table
                                cell_cache_dir fact_cache_path cache_key t
                  in io_bind (path_exists fact_cache_path) (\<lambda>exists.
                       if exists then
                         io_try
                           (io_bind (read_json fact_cache_path) (\<lambda>data.
                            io_bind (io_lift (FactWritingGuidance_of data)) (\<lambda>fact_obj.
                            io_return (Some fact_obj))))
                           (\<lambda>e. io_bind (log_msg Warning ''Failed to load fact cache'') (\<lambda>_. fresh))
                       else fresh))))"

text \<open>
  The attribute of a cell key: the longest header \<open>h\<close> such that the key ends with
  \<open>,h\<close> and the rest is a primary key of the table.
\<close>

fun find_pk_attr :: "string list \<Rightarrow> string \<Rightarrow> (string, (string, string) dict) dict
    \<Rightarrow> (string \<times> string) option" where
  "find_pk_attr [] cell_key row_lookup = None"
| "find_pk_attr (h # hs) cell_key row_lookup =
     (let suffix = '','' @ h in
      if endswith cell_key suffix
         \<and> dict_contains row_lookup (take (length cell_key - length suffix) cell_key)
      then Some (take (length cell_key - length suffix) cell_key, h)
      else find_pk_attr hs cell_key row_lookup)"

text \<open>
  The units of a fan-out run one after the other, in the order of submission; the pool
  runs every submitted unit, so a unit that raises does not stop the later ones. The
  result of a unit is kept as a value: \<open>future.result()\<close> raises it again at the collection.
\<close>

definition run_unit :: "'a io \<Rightarrow> (error + 'a) io" where
  "run_unit m = (\<lambda>w. case m w of (r, w') \<Rightarrow> (Inr r, w'))"

text \<open>The submission loop of \<open>refine_all_cells\<close>.\<close>

fun refine_submit :: "env \<Rightarrow> config \<Rightarrow> table_data \<Rightarrow> (string, (string, string) dict) dict
    \<Rightarrow> string \<Rightarrow> string list \<Rightarrow> path \<Rightarrow> path \<Rightarrow> (string \<times> string list) list
    \<Rightarrow> (error + fact_writing_guidance option) list io" where
  "refine_submit env cfg t row_lookup markdown_table sorted_headers cell_cache_dir fact_cache_dir [] =
     io_return []"
| "refine_submit env cfg t row_lookup markdown_table sorted_headers cell_cache_dir fact_cache_dir
       ((cell_key, strategies) # rest) =
     (let pk_attr =
            (case find_pk_attr sorted_headers cell_key row_lookup of
               Some pa \<Rightarrow> Inr pa
             | None \<Rightarrow> rsplit_comma cell_key);
          continue = refine_submit env cfg t row_lookup markdown_table sorted_headers
                       cell_cache_dir fact_cache_dir rest
      in case pk_attr of
           Inl e \<Rightarrow> io_bind (log_msg Warning ''Skipping malformed cell_key'') (\<lambda>_. continue)
         | Inr (pk, attr) \<Rightarrow>
             io_bind (run_unit (process_single_cell env cfg pk attr strategies row_lookup
                                  markdown_table cell_cache_dir fact_cache_dir
                                  (safe_filename cell_key) t))
               (\<lambda>result. io_bind continue (\<lambda>results. io_return (result # results))))"

text \<open>The collection loop: an exception of a unit leaves \<open>refine_all_cells\<close>.\<close>

fun refine_collect :: "(error + fact_writing_guidance option) list
    \<Rightarrow> fact_writing_guidance list \<times> (string, fact_writing_guidance) dict
    \<Rightarrow> error + (fact_writing_guidance list \<times> (string, fact_writing_guidance) dict)" where
  "refine_collect [] acc = Inr acc"
| "refine_collect (Inl e # rs) acc = Inl e"
| "refine_collect (Inr None # rs) acc = refine_collect rs acc"
| "refine_collect (Inr (Some result) # rs) (fact_list, fact_map) =
     refine_collect rs
       (fact_list @ [result],
        dict_set fact_map (fg_primary_key result @ ''+'' @ fg_attribute result) result)"

definition refine_all_cells :: "env \<Rightarrow> config \<Rightarrow> strategy_assignment \<Rightarrow> table_data \<Rightarrow> path
    \<Rightarrow> (fact_writing_guidance list \<times> (string, fact_writing_guidance) dict) io" where
  "refine_all_cells env cfg strategy_assignment t cache_dir =
     io_bind (io_lift (parse_table_header t)) (\<lambda>(hdr, primary_key, idx).
     io_bind (io_lift (build_row_lookup t hdr primary_key idx)) (\<lambda>row_lookup.
       (let markdown_table = refiner_json_to_markdown t;
            cell_cache_dir = cache_dir @ [''cell_guidance''];
            fact_cache_dir = cache_dir @ [''fact_guidance''];
            sorted_headers = sort_key (\<lambda>h. - int (length h)) hdr
        in io_bind (refine_submit env cfg t row_lookup markdown_table sorted_headers
                      cell_cache_dir fact_cache_dir (assignments strategy_assignment))
             (\<lambda>results. io_lift (refine_collect results ([], []))))))"

section \<open>The pipeline (main.py)\<close>

subsection \<open>More file operations\<close>

definition load_table :: "path \<Rightarrow> table_data io" where
  "load_table p = (\<lambda>w. case files w p of
       None \<Rightarrow> (Inl OSError, w)
     | Some (TableFile t) \<Rightarrow> (Inr t, w)
     | Some other \<Rightarrow> (Inl JSONDecodeError, w))"

text \<open>\<open>shutil.copy2(src, dst)\<close>.\<close>

definition copy_file :: "env \<Rightarrow> path \<Rightarrow> path \<Rightarrow> unit io" where
  "copy_file env src dst = (\<lambda>w. case files w src of
       None \<Rightarrow> (Inl OSError, w)
     | Some c \<Rightarrow> do_op env (OpWrite dst c) w)"

subsection \<open>The section tasks\<close>

definition section_cache_path :: "path \<Rightarrow> int \<Rightarrow> path" where
  "section_cache_path cache_dir sid = cache_dir @ [''section_'' @ str_int sid @ ''.json'']"

text \<open>\<open>write_section_task\<close> below the test of the cache.\<close>

definition write_section_fresh :: "env \<Rightarrow> config \<Rightarrow> section_plan
    \<Rightarrow> (string, fact_writing_guidance) dict \<Rightarrow> string \<Rightarrow> string \<Rightarrow> string option \<Rightarrow> path
    \<Rightarrow> section_rec io" where
  "write_section_fresh env cfg section_plan fact_map theme genre previous_summary cache_path =
     io_bind (write_section env cfg section_plan fact_map theme genre previous_summary) (\<lambda>text.
       (let section = \<lparr>sec_section_id = sp_section_id section_plan,
                        sec_title = sp_title section_plan,
                        sec_content = text, sec_verified = False\<rparr>
        in io_bind (write_json env cache_path (dump_Section section)) (\<lambda>_. io_return section)))"

definition write_section_task :: "env \<Rightarrow> config \<Rightarrow> section_plan
    \<Rightarrow> (string, fact_writing_guidance) dict \<Rightarrow> string \<Rightarrow> string \<Rightarrow> string option \<Rightarrow> path
    \<Rightarrow> section_rec io" where
  "write_section_task env cfg section_plan fact_map theme genre previous_summary cache_path =
     (let fresh = write_section_fresh env cfg section_plan fact_map theme genre previous_summary
                    cache_path
      in io_bind (path_exists cache_path) (\<lambda>exists.
           if exists then
             io_try
               (io_bind (read_json cache_path) (\<lambda>data. io_lift (Section_of data)))
               (\<lambda>e. io_bind (log_msg Warning ''Failed to load section cache'') (\<lambda>_. fresh))
           else fresh))"

text \<open>
  \<open>verify_repair_section_task\<close> changes the section object it is given and returns it.
  The model returns the object as the task leaves it, with the exception if the task
  raised.
\<close>

definition verify_repair_section_task :: "env \<Rightarrow> config \<Rightarrow> section_rec \<Rightarrow> section_plan
    \<Rightarrow> (string, fact_writing_guidance) dict \<Rightarrow> table_data \<Rightarrow> strategy_assignment \<Rightarrow> path
    \<Rightarrow> world \<Rightarrow> (section_rec \<times> (error + unit)) \<times> world" where
  "verify_repair_section_task env cfg section section_plan fact_map t strategy_assignment cache_path =
     (\<lambda>w. case verify_section env cfg (sec_content section) section_plan fact_map t
                  strategy_assignment w of
        (Inl e, w1) \<Rightarrow> ((section, Inl e), w1)
      | (Inr verification, w1) \<Rightarrow>
          if vr_ok verification then
            (let section' = section\<lparr>sec_verified := True\<rparr> in
             case write_json env cache_path (dump_Section section') w1 of
               (r, w2) \<Rightarrow> ((section', r), w2))
          else
            (case repair_section env cfg (sec_content section) section_plan fact_map
                    (vr_errors verification) w1 of
               (Inl e, w2) \<Rightarrow> ((section, Inl e), w2)
             | (Inr repaired_content, w2) \<Rightarrow>
                 (let section' = section\<lparr>sec_content := repaired_content, sec_verified := False\<rparr> in
                  case write_json env cache_path (dump_Section section') w2 of
                    (r, w3) \<Rightarrow> ((section', r), w3))))"

subsection \<open>Steps 0 to 2: the cached stages\<close>

definition regenerate_strategy :: "env \<Rightarrow> config \<Rightarrow> path \<Rightarrow> table_data \<Rightarrow> strategy_assignment io" where
  "regenerate_strategy env cfg strategy_cache_path t =
     io_bind (assign_strategies env cfg t) (\<lambda>strategy_assignment.
     io_bind (write_json env strategy_cache_path (dump_StrategyAssignment strategy_assignment)) (\<lambda>_.
     io_return strategy_assignment))"

definition step0_strategy :: "env \<Rightarrow> config \<Rightarrow> path \<Rightarrow> table_data \<Rightarrow> strategy_assignment io" where
  "step0_strategy env cfg output_dir t =
     (let strategy_cache_path = output_dir @ [''strategy_assignment.json''] in
      io_bind (path_exists strategy_cache_path) (\<lambda>exists.
        if exists then
          io_try
            (io_bind (read_json strategy_cache_path) (\<lambda>data. io_lift (StrategyAssignment_of data)))
            (\<lambda>e. io_bind (log_msg Warning ''Failed to load strategy cache, regenerating...'') (\<lambda>_.
               regenerate_strategy env cfg strategy_cache_path t))
        else regenerate_strategy env cfg strategy_cache_path t))"

text \<open>The fact map of main.py: the facts under \<open>primary_key+attribute\<close>.\<close>

definition fact_map_of :: "fact_writing_guidance list \<Rightarrow> (string, fact_writing_guidance) dict" where
  "fact_map_of fact_list =
     foldl (\<lambda>m fact_obj. dict_set m (fg_primary_key fact_obj @ ''+'' @ fg_attribute fact_obj) fact_obj)
       [] fact_list"

definition load_fact_list :: "json \<Rightarrow> error + fact_writing_guidance list" where
  "load_fact_list data =
     bindE (get_item data ''fact_list'') (\<lambda>fl.
     bindE (py_iter fl) (\<lambda>its. map_raise FactWritingGuidance_of its))"

definition regenerate_guidance :: "env \<Rightarrow> config \<Rightarrow> path \<Rightarrow> path \<Rightarrow> strategy_assignment
    \<Rightarrow> table_data \<Rightarrow> (fact_writing_guidance list \<times> (string, fact_writing_guidance) dict) io" where
  "regenerate_guidance env cfg fact_guidance_cache_path cache_dir strategy_assignment t =
     io_bind (refine_all_cells env cfg strategy_assignment t cache_dir) (\<lambda>(fact_list, fact_map).
     io_bind (write_json env fact_guidance_cache_path
                (JObj [(''fact_list'', JArr (map dump_FactWritingGuidance fact_list))])) (\<lambda>_.
     io_return (fact_list, fact_map)))"

definition step1_guidance :: "env \<Rightarrow> config \<Rightarrow> path \<Rightarrow> path \<Rightarrow> strategy_assignment \<Rightarrow> table_data
    \<Rightarrow> (fact_writing_guidance list \<times> (string, fact_writing_guidance) dict) io" where
  "step1_guidance env cfg output_dir cache_dir strategy_assignment t =
     (let fact_guidance_cache_path = output_dir @ [''fact_guidance.json''] in
      io_bind (path_exists fact_guidance_cache_path) (\<lambda>exists.
        if exists then
          io_try
            (io_bind (read_json fact_guidance_cache_path) (\<lambda>data.
             io_bind (io_lift (load_fact_list data)) (\<lambda>fact_list.
             io_return (fact_list, fact_map_of fact_list))))
            (\<lambda>e. io_bind (log_msg Warning ''Failed to load fact guidance cache, regenerating...'')
               (\<lambda>_. regenerate_guidance env cfg fact_guidance_cache_path cache_dir
                       strategy_assignment t))
        else regenerate_guidance env cfg fact_guidance_cache_path cache_dir strategy_assignment t))"

text \<open>The facts handed to the planner: the sub-facts of a split fact, else the fact itself.\<close>

definition fact_strings_of :: "fact_writing_guidance list \<Rightarrow> string list" where
  "fact_strings_of fact_list =
     concat (map (\<lambda>f. if fg_sub_facts f \<noteq> [] then dict_keys (fg_sub_facts f) else [fg_fact f])
               fact_list)"

definition regenerate_plan :: "env \<Rightarrow> config \<Rightarrow> path \<Rightarrow> fact_writing_guidance list
    \<Rightarrow> (string, fact_writing_guidance) dict \<Rightarrow> table_data \<Rightarrow> document_plan io" where
  "regenerate_plan env cfg document_plan_cache_path fact_list fact_map t =
     io_bind (plan_document env cfg (fact_strings_of fact_list) t fact_map) (\<lambda>document_plan.
     io_bind (write_json env document_plan_cache_path (dump_DocumentPlan document_plan)) (\<lambda>_.
     io_return document_plan))"

definition step2_plan :: "env \<Rightarrow> config \<Rightarrow> path \<Rightarrow> fact_writing_guidance list
    \<Rightarrow> (string, fact_writing_guidance) dict \<Rightarrow> table_data \<Rightarrow> document_plan io" where
  "step2_plan env cfg output_dir fact_list fact_map t =
     (let document_plan_cache_path = output_dir @ [''document_plan.json''] in
      io_bind (path_exists document_plan_cache_path) (\<lambda>exists.
        if exists then
          io_try
            (io_bind (read_json document_plan_cache_path) (\<lambda>data. io_lift (DocumentPlan_of data)))
            (\<lambda>e. io_bind (log_msg Warning ''Failed to load document plan cache, regenerating...'')
               (\<lambda>_. regenerate_plan env cfg document_plan_cache_path fact_list fact_map t))
        else regenerate_plan env cfg document_plan_cache_path fact_list fact_map t))"

subsection \<open>Step 3: the write fan-out\<close>

text \<open>
  The submission loop: section \<open>i\<close> gets the summary of section \<open>i - 1\<close> of the plan.
  Every task runs; its result is kept for the collection.
\<close>

fun write_submit :: "env \<Rightarrow> config \<Rightarrow> path \<Rightarrow> (string, fact_writing_guidance) dict \<Rightarrow> string
    \<Rightarrow> string \<Rightarrow> string option \<Rightarrow> section_plan list \<Rightarrow> (error + section_rec) list io" where
  "write_submit env cfg cache_dir fact_map theme genre prev [] = io_return []"
| "write_submit env cfg cache_dir fact_map theme genre prev (section_plan # rest) =
     io_bind (run_unit (write_section_task env cfg section_plan fact_map theme genre prev
                          (section_cache_path cache_dir (sp_section_id section_plan))))
       (\<lambda>result.
     io_bind (write_submit env cfg cache_dir fact_map theme genre
                (Some (sp_summary section_plan)) rest)
       (\<lambda>results. io_return (result # results)))"

text \<open>The collection: a task that raised is logged and leaves no section.\<close>

fun write_collect :: "(error + section_rec) list \<Rightarrow> section_rec list io" where
  "write_collect [] = io_return []"
| "write_collect (Inl e # rs) =
     io_bind (log_msg Error ''Error writing section'') (\<lambda>_. write_collect rs)"
| "write_collect (Inr section # rs) =
     io_bind (write_collect rs) (\<lambda>sections. io_return (section # sections))"

definition step3_write :: "env \<Rightarrow> config \<Rightarrow> path \<Rightarrow> document_plan
    \<Rightarrow> (string, fact_writing_guidance) dict \<Rightarrow> section_rec list io" where
  "step3_write env cfg cache_dir document_plan fact_map =
     io_bind (write_submit env cfg cache_dir fact_map (dp_theme document_plan)
                (dp_genre document_plan) None (dp_sections document_plan))
       write_collect"

subsection \<open>Step 4: verify and repair\<close>

text \<open>
  \<open>document.sections\<close> is a list of references to section objects, and a task changes
  its object in place: \<open>objs\<close> are the objects that step 3 made, \<open>refs\<close> the positions of
  the list, each the index of an object.
\<close>

record doc_state =
  objs :: "section_rec list"
  refs :: "nat list"

definition document_sections :: "doc_state \<Rightarrow> section_rec list" where
  "document_sections st = map (\<lambda>r. objs st ! r) (refs st)"

text \<open>\<open>next((x for x in xs if P x), None)\<close> and its form with \<open>enumerate\<close>.\<close>

fun first_index_where :: "('a \<Rightarrow> bool) \<Rightarrow> 'a list \<Rightarrow> nat option" where
  "first_index_where P [] = None"
| "first_index_where P (x # xs) =
     (if P x then Some 0 else map_option Suc (first_index_where P xs))"

text \<open>
  The tasks of one round, over the references of the unverified sections: a section
  whose id is the id of no section plan gets no task.
\<close>

fun round_tasks :: "env \<Rightarrow> config \<Rightarrow> path \<Rightarrow> section_plan list
    \<Rightarrow> (string, fact_writing_guidance) dict \<Rightarrow> table_data \<Rightarrow> strategy_assignment \<Rightarrow> nat list
    \<Rightarrow> section_rec list \<Rightarrow> world \<Rightarrow> (section_rec list \<times> (nat \<times> (error + unit)) list) \<times> world" where
  "round_tasks env cfg cache_dir plans fact_map t sa [] os w = ((os, []), w)"
| "round_tasks env cfg cache_dir plans fact_map t sa (r # rs) os w =
     (case find (\<lambda>sp. sp_section_id sp = sec_section_id (os ! r)) plans of
        None \<Rightarrow> round_tasks env cfg cache_dir plans fact_map t sa rs os w
      | Some section_plan \<Rightarrow>
          (case verify_repair_section_task env cfg (os ! r) section_plan fact_map t sa
                  (section_cache_path cache_dir (sec_section_id (os ! r))) w of
             ((section', res), w') \<Rightarrow>
               (case round_tasks env cfg cache_dir plans fact_map t sa rs (os[r := section']) w' of
                  ((os'', results), w'') \<Rightarrow> ((os'', (r, res) # results), w''))))"

text \<open>
  The collection of a round: the exception of a task leaves the loop; the returned
  object replaces the first section of the document with its id.
\<close>

fun round_collect :: "section_rec list \<Rightarrow> (nat \<times> (error + unit)) list \<Rightarrow> nat list \<Rightarrow> error + nat list" where
  "round_collect os [] rfs = Inr rfs"
| "round_collect os ((r, Inl e) # results) rfs = Inl e"
| "round_collect os ((r, Inr u) # results) rfs =
     round_collect os results
       (case first_index_where (\<lambda>r'. sec_section_id (os ! r') = sec_section_id (os ! r)) rfs of
          None \<Rightarrow> rfs
        | Some idx \<Rightarrow> rfs[idx := r])"

fun verify_repair_loop :: "env \<Rightarrow> config \<Rightarrow> path \<Rightarrow> section_plan list
    \<Rightarrow> (string, fact_writing_guidance) dict \<Rightarrow> table_data \<Rightarrow> strategy_assignment \<Rightarrow> nat
    \<Rightarrow> doc_state \<Rightarrow> doc_state io" where
  "verify_repair_loop env cfg cache_dir plans fact_map t sa 0 st = io_return st"
| "verify_repair_loop env cfg cache_dir plans fact_map t sa (Suc n) st =
     (let unverified = filter (\<lambda>r. \<not> sec_verified (objs st ! r)) (refs st) in
      if unverified = [] then io_return st
      else (\<lambda>w.
        case round_tasks env cfg cache_dir plans fact_map t sa unverified (objs st) w of
          ((os', results), w') \<Rightarrow>
            (case round_collect os' results (refs st) of
               Inl e \<Rightarrow> (Inl e, w')
             | Inr rfs' \<Rightarrow>
                 verify_repair_loop env cfg cache_dir plans fact_map t sa n
                   \<lparr>objs = os', refs = rfs'\<rparr> w')))"

subsection \<open>The final document\<close>

fun write_sections :: "env \<Rightarrow> path \<Rightarrow> section_rec list \<Rightarrow> unit io" where
  "write_sections env final_doc_path [] = io_return ()"
| "write_sections env final_doc_path (section # rest) =
     io_bind (do_op env (OpAppend final_doc_path (sec_content section @ [CHR 0x0A, CHR 0x0A])))
       (\<lambda>_. write_sections env final_doc_path rest)"

text \<open>Opening the file for writing empties it; then the sections; then the cache goes.\<close>

definition synthesize :: "env \<Rightarrow> path \<Rightarrow> path \<Rightarrow> section_rec list \<Rightarrow> unit io" where
  "synthesize env final_doc_path cache_dir sections =
     io_bind (do_op env (OpWrite final_doc_path (TextFile []))) (\<lambda>_.
     io_bind (write_sections env final_doc_path sections) (\<lambda>_.
     io_try (do_op env (OpRmtree cache_dir))
       (\<lambda>e. log_msg Warning ''Failed to clean cache dir'')))"

subsection \<open>\<open>process_task\<close>\<close>

text \<open>How a job ends. The source returns nothing; the model keeps the document.\<close>

datatype outcome = Skipped | Incomplete "section_rec list" | Completed "section_rec list"

definition task_name_of :: "path \<Rightarrow> string" where
  "task_name_of file_path = str_replace (if file_path = [] then [] else last file_path) ''.json'' []"

definition output_dir_of :: "config \<Rightarrow> path \<Rightarrow> path" where
  "output_dir_of cfg file_path = [OUTPUT_PATH cfg, task_name_of file_path]"

text \<open>Steps 3 and 4, given the results of steps 0 to 2: the sections of the document.\<close>

definition write_and_verify :: "env \<Rightarrow> config \<Rightarrow> path \<Rightarrow> table_data \<Rightarrow> strategy_assignment
    \<Rightarrow> (string, fact_writing_guidance) dict \<Rightarrow> document_plan \<Rightarrow> section_rec list io" where
  "write_and_verify env cfg output_dir t strategy_assignment fact_map document_plan =
     (let cache_dir = output_dir @ [''cache''] in
      io_bind (step3_write env cfg cache_dir document_plan fact_map) (\<lambda>sections.
      io_bind (verify_repair_loop env cfg cache_dir (dp_sections document_plan) fact_map t
                 strategy_assignment (VERIFY_AND_REPAIR_MAX_RETRIES cfg)
                 \<lparr>objs = sections, refs = [0 ..< length sections]\<rparr>) (\<lambda>st.
      io_return (document_sections st))))"

text \<open>The end of \<open>process_task\<close>, from the count of the verified sections.\<close>

definition commit_document :: "env \<Rightarrow> path \<Rightarrow> section_rec list \<Rightarrow> outcome io" where
  "commit_document env output_dir sections =
     (let cache_dir = output_dir @ [''cache''];
          final_doc_path = output_dir @ [''final_document.md''];
          verified_count = length (filter sec_verified sections) in
      if verified_count \<noteq> length sections then
        io_bind (log_msg Error ''Not all sections verified, skipping final document synthesis'')
          (\<lambda>_. io_return (Incomplete sections))
      else
        io_bind (synthesize env final_doc_path cache_dir sections) (\<lambda>_.
        io_return (Completed sections)))"

text \<open>Steps 3 and 4 and the final document.\<close>

definition write_verify_commit :: "env \<Rightarrow> config \<Rightarrow> path \<Rightarrow> table_data \<Rightarrow> strategy_assignment
    \<Rightarrow> (string, fact_writing_guidance) dict \<Rightarrow> document_plan \<Rightarrow> outcome io" where
  "write_verify_commit env cfg output_dir t strategy_assignment fact_map document_plan =
     io_bind (write_and_verify env cfg output_dir t strategy_assignment fact_map document_plan)
       (commit_document env output_dir)"

text \<open>The body of the \<open>try\<close> of \<open>process_task\<close>.\<close>

definition process_task_body :: "env \<Rightarrow> config \<Rightarrow> path \<Rightarrow> outcome io" where
  "process_task_body env cfg file_path =
     (let output_dir = output_dir_of cfg file_path;
          cache_dir = output_dir @ [''cache''];
          final_doc_path = output_dir @ [''final_document.md''];
          table_copy_path = output_dir @ [''raw_table.json''] in
      io_bind (path_exists final_doc_path) (\<lambda>done.
        if done then io_return Skipped
        else
          io_bind (load_table file_path) (\<lambda>t.
          io_bind (path_exists table_copy_path) (\<lambda>copied.
          io_bind (if \<not> copied then copy_file env file_path table_copy_path else io_return ()) (\<lambda>_.
          io_bind (step0_strategy env cfg output_dir t) (\<lambda>strategy_assignment.
          io_bind (step1_guidance env cfg output_dir cache_dir strategy_assignment t)
            (\<lambda>(fact_list, fact_map).
          io_bind (step2_plan env cfg output_dir fact_list fact_map t) (\<lambda>document_plan.
            write_verify_commit env cfg output_dir t strategy_assignment fact_map
              document_plan))))))))"

text \<open>
  The document of a job: \<open>process_task\<close> from the loading of the table to the end of
  step 4, without the test for a job that is already done and without the final document.
\<close>

definition build_document :: "env \<Rightarrow> config \<Rightarrow> path \<Rightarrow> section_rec list io" where
  "build_document env cfg file_path =
     (let output_dir = output_dir_of cfg file_path;
          cache_dir = output_dir @ [''cache''];
          table_copy_path = output_dir @ [''raw_table.json''] in
      io_bind (load_table file_path) (\<lambda>t.
      io_bind (path_exists table_copy_path) (\<lambda>copied.
      io_bind (if \<not> copied then copy_file env file_path table_copy_path else io_return ()) (\<lambda>_.
      io_bind (step0_strategy env cfg output_dir t) (\<lambda>strategy_assignment.
      io_bind (step1_guidance env cfg output_dir cache_dir strategy_assignment t)
        (\<lambda>(fact_list, fact_map).
      io_bind (step2_plan env cfg output_dir fact_list fact_map t) (\<lambda>document_plan.
        write_and_verify env cfg output_dir t strategy_assignment fact_map document_plan)))))))"

text \<open>\<open>process_task\<close>: an exception of the body is logged and goes no further.\<close>

definition process_task :: "env \<Rightarrow> config \<Rightarrow> path \<Rightarrow> world \<Rightarrow> world" where
  "process_task env cfg file_path w =
     (case process_task_body env cfg file_path w of
        (Inl e, w') \<Rightarrow> w'\<lparr>logs := logs w' @ [(Error, ''Task failed with exception'')]\<rparr>
      | (Inr res, w') \<Rightarrow> w')"

section \<open>The specification's notions, stated on the table\<close>











section \<open>Concrete inputs\<close>

definition empty_world :: world where
  "empty_world = \<lparr>files = Map.empty, ops = [], calls = [], logs = []\<rparr>"

text \<open>An environment in which every request to the API fails.\<close>

definition silent_env :: env where
  "silent_env =
     \<lparr> llm_api = (\<lambda>n messages. Inl APIError),
       io_fails = (\<lambda>n op. False),
       json_loads = (\<lambda>s. None),
       repair_json = (\<lambda>s. Inl ValueError) \<rparr>"








text \<open>
  Three facts, and three answers of the API to the planning prompt: a partition of the
  facts, a plan with fact 3 in both sections, and a partition with one more statement
  that is no input fact. \<open>plan_loads\<close> is what \<open>json.loads\<close> gives on these answers.
\<close>

definition facts3 :: "string list" where
  "facts3 = [''The a for r1 is 1'', ''The b for r1 is 2'', ''The c for r1 is 3'']"

definition good_reply :: string where
  \<open>good_reply = ''{"theme": "t", "genre": "g", "sections": [{"section_id": 0, "title": "s0", "goal": "g0", "summary": "m0", "facts": ["1", "2"]}, {"section_id": 1, "title": "s1", "goal": "g1", "summary": "m1", "facts": ["3"]}]}''\<close>

definition bad_reply :: string where
  \<open>bad_reply = ''{"theme": "t", "genre": "g", "sections": [{"section_id": 0, "title": "s0", "goal": "g0", "summary": "m0", "facts": ["1", "2", "3"]}, {"section_id": 1, "title": "s1", "goal": "g1", "summary": "m1", "facts": ["3"]}]}''\<close>

definition plan_json :: "string list \<Rightarrow> string list \<Rightarrow> json" where
  "plan_json ids0 ids1 =
     JObj [(''theme'', JStr ''t''), (''genre'', JStr ''g''),
           (''sections'', JArr
              [JObj [(''section_id'', JInt 0), (''title'', JStr ''s0''), (''goal'', JStr ''g0''),
                     (''summary'', JStr ''m0''), (''facts'', JArr (map JStr ids0))],
               JObj [(''section_id'', JInt 1), (''title'', JStr ''s1''), (''goal'', JStr ''g1''),
                     (''summary'', JStr ''m1''), (''facts'', JArr (map JStr ids1))]])]"

definition two_section_plan :: "string list \<Rightarrow> string list \<Rightarrow> document_plan" where
  "two_section_plan fs0 fs1 =
     \<lparr> dp_theme = ''t'', dp_genre = ''g'',
       dp_sections =
         [\<lparr>sp_section_id = 0, sp_title = ''s0'', sp_goal = ''g0'', sp_summary = ''m0'', sp_facts = fs0\<rparr>,
          \<lparr>sp_section_id = 1, sp_title = ''s1'', sp_goal = ''g1'', sp_summary = ''m1'', sp_facts = fs1\<rparr>] \<rparr>"

definition good_plan :: document_plan where
  "good_plan = two_section_plan [''The a for r1 is 1'', ''The b for r1 is 2''] [''The c for r1 is 3'']"


definition extra_reply :: string where
  \<open>extra_reply = ''{"theme": "t", "genre": "g", "sections": [{"section_id": 0, "title": "s0", "goal": "g0", "summary": "m0", "facts": ["1", "2"]}, {"section_id": 1, "title": "s1", "goal": "g1", "summary": "m1", "facts": ["3", "The d for r1 is 4"]}]}''\<close>

definition extra_plan :: document_plan where
  "extra_plan = two_section_plan [''The a for r1 is 1'', ''The b for r1 is 2'']
                  [''The c for r1 is 3'', ''The d for r1 is 4'']"

definition plan_loads :: "string \<Rightarrow> json option" where
  "plan_loads s =
     (if s = good_reply then Some (plan_json [''1'', ''2''] [''3''])
      else if s = bad_reply then Some (plan_json [''1'', ''2'', ''3''] [''3''])
      else if s = extra_reply then Some (plan_json [''1'', ''2''] [''3'', ''The d for r1 is 4''])
      else None)"

text \<open>An environment whose API answers the n-th request with \<open>replies n\<close>.\<close>

definition plan_env :: "(nat \<Rightarrow> string) \<Rightarrow> env" where
  "plan_env replies =
     \<lparr> llm_api = (\<lambda>n messages. Inr (replies n)),
       io_fails = (\<lambda>n op. False),
       json_loads = plan_loads,
       repair_json = (\<lambda>s. Inl ValueError) \<rparr>"


definition good_env :: env where
  "good_env = plan_env (\<lambda>n. good_reply)"

definition extra_env :: env where
  "extra_env = plan_env (\<lambda>n. extra_reply)"

definition c8_table :: table_data where
  "c8_table =
     \<lparr> tbl_header = [HPlain ''id'', HPlain ''a'', HPlain ''b'', HPlain ''c''],
       tbl_primary_key = PKSingle ''id'',
       tbl_data = [[Plain (SStr ''r1''), Plain (SStr ''1''), Plain (SStr ''2''), Plain (SStr ''3'')]] \<rparr>"

definition c8_config :: config where
  "c8_config = default_config ''dense''"


definition c8_messages :: "message list" where
  "c8_messages = plan_messages c8_config facts3 (dict_of_items (map (\<lambda>f. (f, [])) facts3))"

text \<open>
  A fact that the refiner split into two sub-facts (its own guidance is empty, as the
  split branch leaves it), the fact map that holds it, and a section plan that names
  the parent fact. \<open>wellformed_errors\<close>: every error of a verification carries the two
  keys that \<open>repair_section\<close> reads.
\<close>

definition split_fact :: fact_writing_guidance where
  "split_fact =
     \<lparr> fg_primary_key = ''r1'', fg_attribute = ''a'', fg_fact = ''The a for r1 is 1'',
       fg_writing_guidance = '''',
       fg_sub_facts = [(''The a for r1 is odd'', ''g1''), (''The a for r1 is below 2'', ''g2'')] \<rparr>"

definition split_fact_map :: "(string, fact_writing_guidance) dict" where
  "split_fact_map = [(''r1+a'', split_fact)]"

definition parent_plan :: section_plan where
  "parent_plan = \<lparr>sp_section_id = 0, sp_title = ''s0'', sp_goal = ''g0'', sp_summary = ''m0'',
                   sp_facts = [''The a for r1 is 1'']\<rparr>"

definition wellformed_errors :: "(string, string) dict list \<Rightarrow> bool" where
  "wellformed_errors errs =
     (\<forall>e \<in> set errs. dict_get e ''description'' \<noteq> None \<and> dict_get e ''suggestion'' \<noteq> None)"

definition retry_error :: "(string, string) dict" where
  "retry_error = [(''description'', ''Verification error: APIError''), (''suggestion'', ''Retry'')]"



definition lefts :: "('a + 'b) list \<Rightarrow> 'a list" where
  "lefts rs = concat (map (\<lambda>r. case r of Inl e \<Rightarrow> [e] | Inr x \<Rightarrow> []) rs)"

definition rights :: "('a + 'b) list \<Rightarrow> 'b list" where
  "rights rs = concat (map (\<lambda>r. case r of Inl e \<Rightarrow> [] | Inr x \<Rightarrow> [x]) rs)"

definition somes :: "'a option list \<Rightarrow> 'a list" where
  "somes xs = concat (map (\<lambda>x. case x of None \<Rightarrow> [] | Some y \<Rightarrow> [y]) xs)"


definition c2_cache_dir :: path where
  "c2_cache_dir = [''document'', ''t1'', ''cache'']"

definition fact_r1_a :: fact_writing_guidance where
  "fact_r1_a = \<lparr>fg_primary_key = ''r1'', fg_attribute = ''a'',
      fg_fact = ''The a for '' @ [CHR 0x27] @ ''r1'' @ [CHR 0x27] @ '' is 1'',
      fg_writing_guidance = ''Naturally weave into the narrative that the '' @ [CHR 0x27] @ ''a''
               @ [CHR 0x27] @ '' for '' @ [CHR 0x27] @ ''r1'' @ [CHR 0x27] @ '' is '' @ [CHR 0x27] @ ''1'' @ [CHR 0x27]
               @ ''. Avoid merely listing the fact; it should be integrated smoothly into a descriptive sentence or analytical point.'',
      fg_sub_facts = []\<rparr>"









subsection \<open>The file operations of a run\<close>

text \<open>The text of the final document for a list of sections.\<close>

definition document_text :: "section_rec list \<Rightarrow> string" where
  "document_text sections = concat (map (\<lambda>s. sec_content s @ [CHR 0x0A, CHR 0x0A]) sections)"

text \<open>An operation writes to a file; an operation deletes files.\<close>

definition touches :: "path \<Rightarrow> fs_op \<Rightarrow> bool" where
  "touches p op = (case op of OpWrite q c \<Rightarrow> q = p | OpAppend q s \<Rightarrow> q = p | _ \<Rightarrow> False)"

definition deletes :: "fs_op \<Rightarrow> bool" where
  "deletes op = (case op of OpRmtree d \<Rightarrow> True | _ \<Rightarrow> False)"

text \<open>An operation that neither deletes nor writes to the file \<open>p\<close>.\<close>

definition benign :: "path \<Rightarrow> fs_op \<Rightarrow> bool" where
  "benign p op = (\<not> touches p op \<and> \<not> deletes op)"

text \<open>
  From \<open>w\<close> to \<open>w'\<close> the run attempted the operations \<open>es\<close>, in this order, and the files
  of \<open>w'\<close> are the files of \<open>w\<close> after them.
\<close>

definition run_ops :: "world \<Rightarrow> world \<Rightarrow> fs_op list \<Rightarrow> bool" where
  "run_ops w w' es = (ops w' = ops w @ es \<and> files w' = fold apply_op es (files w))"

definition extends :: "(fs_op \<Rightarrow> bool) \<Rightarrow> world \<Rightarrow> world \<Rightarrow> bool" where
  "extends P w w' = (\<exists>es. run_ops w w' es \<and> list_all P es)"

definition keeps :: "(fs_op \<Rightarrow> bool) \<Rightarrow> 'a io \<Rightarrow> bool" where
  "keeps P m = (\<forall>w. extends P w (snd (m w)))"

section \<open>Properties of the helpers\<close>

lemmas io_defs = io_bind_def io_return_def io_raise_def io_lift_def io_try_def log_msg_def bindE_def




lemma map_raise_ok: "(\<forall>x\<in>set xs. \<exists>y. f x = Inr y) \<Longrightarrow> \<exists>ys. map_raise f xs = Inr ys"
  by (induction xs) (auto split: sum.splits)






















lemma dict_set_fresh: "k \<notin> set (dict_keys d) \<Longrightarrow> dict_set d k v = d @ [(k, v)]"
  by (induction d) (auto simp: dict_keys_def)

lemma dict_of_items_distinct_id: "distinct (map fst kvs) \<Longrightarrow> dict_of_items kvs = kvs"
proof -
  have "distinct (map fst (d0 @ kvs)) \<Longrightarrow> foldl (\<lambda>d (k, v). dict_set d k v) d0 kvs = d0 @ kvs" for d0
  proof (induction kvs arbitrary: d0)
    case Nil then show ?case by simp
  next
    case (Cons kv kvs)
    obtain k v where kv: "kv = (k, v)" by (cases kv)
    with Cons.prems have "k \<notin> set (dict_keys d0)" by (auto simp: dict_keys_def)
    then have "dict_set d0 k v = d0 @ [(k, v)]" by (rule dict_set_fresh)
    with Cons.IH[of "d0 @ [(k, v)]"] Cons.prems kv show ?case by simp
  qed
  from this[of "[]"] show "distinct (map fst kvs) \<Longrightarrow> dict_of_items kvs = kvs" by (simp add: dict_of_items_def)
qed

section \<open>Strategy assignment: claims C6 and C9\<close>


























section \<open>Document planning: claims C1 and C8\<close>


lemma str_nat_digit: "n < 10 \<Longrightarrow> str_nat n = [digit_char n]"
  by (simp add: str_nat.simps)

lemma fact_ids3: "fact_ids facts3 = [(''1'', ''The a for r1 is 1''), (''2'', ''The b for r1 is 2''), (''3'', ''The c for r1 is 3'')]"
  by (simp add: fact_ids_def facts3_def upt_rec str_nat_digit digit_char_def dict_of_items_def)

lemma call_llm_ok:
  assumes "llm_api env (length (calls w)) messages = Inr r" and "0 < LLM_MAX_RETRIES cfg"
  shows "call_llm env cfg messages w = (Inr r, w\<lparr>calls := calls w @ [messages]\<rparr>)"
proof -
  from assms(2) obtain n where "LLM_MAX_RETRIES cfg = Suc n" by (cases "LLM_MAX_RETRIES cfg") auto
  with assms(1) show ?thesis by (simp add: call_llm_def)
qed

lemma parse_good: "json_loads env = plan_loads \<Longrightarrow> parse_json env good_reply w = (Inr (plan_json [''1'', ''2''] [''3'']), w)"
  by (simp add: parse_json_def plan_loads_def good_reply_def str_rfind_def io_defs)


lemma convert_good: "convert_fact_ids (fact_ids facts3) (plan_json [''1'', ''2''] [''3''])
    = Inr (plan_json [''The a for r1 is 1'', ''The b for r1 is 2''] [''The c for r1 is 3''])"
  by (simp add: fact_ids3 convert_fact_ids_def plan_json_def bindE_def dict_get_def)

lemma parse_extra: "json_loads env = plan_loads \<Longrightarrow> parse_json env extra_reply w = (Inr (plan_json [''1'', ''2''] [''3'', ''The d for r1 is 4'']), w)"
  by (simp add: parse_json_def plan_loads_def bad_reply_def good_reply_def extra_reply_def str_rfind_def io_defs)

lemma convert_extra: "convert_fact_ids (fact_ids facts3) (plan_json [''1'', ''2''] [''3'', ''The d for r1 is 4''])
    = Inr (plan_json [''The a for r1 is 1'', ''The b for r1 is 2''] [''The c for r1 is 3'', ''The d for r1 is 4''])"
  by (simp add: fact_ids3 convert_fact_ids_def plan_json_def bindE_def dict_get_def)

lemma validate_extra: "validate_document_plan extra_plan facts3 = []"
  by (simp add: validate_document_plan_def missing_facts_def duplicate_facts_def planned_facts_def
      extra_plan_def two_section_plan_def facts3_def)


lemma map_raise_as_str: "map_raise as_str (map JStr xs) = Inr xs"
  by (induction xs) auto

lemma DocumentPlan_of_plan_json: "DocumentPlan_of (plan_json fs0 fs1) = Inr (two_section_plan fs0 fs1)"
  by (simp add: plan_json_def bindE_def required_def optional_def two_section_plan_def map_raise_as_str)

lemma validate_good: "validate_document_plan good_plan facts3 = []"
  by (simp add: validate_document_plan_def missing_facts_def duplicate_facts_def planned_facts_def
      good_plan_def two_section_plan_def facts3_def)




lemma plan_attempt_good:
  assumes "json_loads env = plan_loads" "llm_api env (length (calls w)) messages = Inr good_reply"
    "0 < LLM_MAX_RETRIES cfg"
  shows "plan_attempt env cfg facts3 messages w = (Inr (Accepted good_plan), w\<lparr>calls := calls w @ [messages]\<rparr>)"
  by (simp add: plan_attempt_def io_bind_def io_lift_def io_return_def call_llm_ok[OF assms(2,3)]
      parse_good[OF assms(1)] convert_good DocumentPlan_of_plan_json good_plan_def[symmetric] validate_good)


lemma plan_attempt_extra:
  assumes "json_loads env = plan_loads" "llm_api env (length (calls w)) messages = Inr extra_reply"
    "0 < LLM_MAX_RETRIES cfg"
  shows "plan_attempt env cfg facts3 messages w = (Inr (Accepted extra_plan), w\<lparr>calls := calls w @ [messages]\<rparr>)"
  by (simp add: plan_attempt_def io_bind_def io_lift_def io_return_def call_llm_ok[OF assms(2,3)]
      parse_extra[OF assms(1)] convert_extra DocumentPlan_of_plan_json extra_plan_def[symmetric] validate_extra)

lemma plan_env_simps: "json_loads (plan_env replies) = plan_loads" "llm_api (plan_env replies) n messages = Inr (replies n)"
  by (simp_all add: plan_env_def)

lemma c8_cfg: "PLAN_MAX_RETRIES c8_config = 3" "0 < LLM_MAX_RETRIES c8_config"
  by (simp_all add: c8_config_def default_config_def)

lemma plan_document_nomap:
  "plan_document env cfg facts t [] = plan_loop env cfg facts (PLAN_MAX_RETRIES cfg)
      (plan_messages cfg facts (dict_of_items (map (\<lambda>f. (f, [])) facts)))"
  by (simp add: plan_document_def io_bind_def io_lift_def fun_eq_iff)

lemma run_good: "plan_document good_env c8_config facts3 c8_table [] empty_world
    = (Inr good_plan, empty_world\<lparr>calls := [c8_messages]\<rparr>)"
  by (simp add: plan_document_nomap c8_cfg numeral_3_eq_3 good_env_def plan_env_simps
      plan_attempt_good c8_messages_def empty_world_def)

lemma run_extra: "plan_document extra_env c8_config facts3 c8_table [] empty_world
    = (Inr extra_plan, empty_world\<lparr>calls := [c8_messages]\<rparr>)"
  by (simp add: plan_document_nomap c8_cfg numeral_3_eq_3 extra_env_def plan_env_simps
      plan_attempt_extra c8_messages_def empty_world_def)


lemma set_first_occurrences: "set (first_occurrences xs) = set xs"
  by (induction xs) auto

lemma validate_document_plan_empty:
  "validate_document_plan plan facts = [] \<longleftrightarrow> missing_facts plan facts = [] \<and> duplicate_facts plan = []"
  by (auto simp: validate_document_plan_def Let_def)

lemma missing_facts_empty: "missing_facts plan facts = [] \<longleftrightarrow> set facts \<subseteq> set (planned_facts plan)"
  by (auto simp: missing_facts_def filter_empty_conv set_first_occurrences)

lemma distinct_count_list: "distinct xs \<longleftrightarrow> (\<forall>x \<in> set xs. count_list xs x \<le> 1)"
proof (induction xs)
  case Nil then show ?case by simp
next
  case (Cons a xs)
  show ?case
  proof
    assume "distinct (a # xs)"
    with Cons show "\<forall>x \<in> set (a # xs). count_list (a # xs) x \<le> 1" by auto
  next
    assume h: "\<forall>x \<in> set (a # xs). count_list (a # xs) x \<le> 1"
    then have "count_list xs a = 0" by auto
    then have "a \<notin> set xs" by (simp add: count_list_0_iff)
    moreover from h have "\<forall>x \<in> set xs. count_list xs x \<le> 1" by (auto split: if_splits)
    ultimately show "distinct (a # xs)" using Cons by simp
  qed
qed

lemma distinct_count_one: "distinct xs \<Longrightarrow> x \<in> set xs \<Longrightarrow> count_list xs x = 1"
proof -
  assume d: "distinct xs" and x: "x \<in> set xs"
  then have "count_list xs x \<le> 1" by (simp add: distinct_count_list)
  moreover from x have "count_list xs x \<noteq> 0" by (simp add: count_list_0_iff)
  ultimately show ?thesis by simp
qed

lemma duplicate_facts_empty: "duplicate_facts plan = [] \<longleftrightarrow> distinct (planned_facts plan)"
  by (auto simp: duplicate_facts_def filter_empty_conv set_first_occurrences not_less distinct_count_list)

lemma plan_attempt_Accepted:
  "plan_attempt env cfg facts messages w = (Inr (Accepted plan), w') \<Longrightarrow> validate_document_plan plan facts = []"
  by (auto simp: plan_attempt_def io_defs Let_def split: sum.splits prod.splits if_splits)

lemma plan_loop_Inr:
  "plan_loop env cfg facts n messages w = (Inr plan, w') \<Longrightarrow>
     \<exists>msgs w1 w2. plan_attempt env cfg facts msgs w1 = (Inr (Accepted plan), w2)"
proof (induction n arbitrary: messages w)
  case 0 then show ?case by (simp add: io_raise_def)
next
  case (Suc n)
  then show ?case by (auto split: prod.splits sum.splits attempt.splits)
qed

lemma plan_document_Inr:
  "plan_document env cfg facts t fact_map w = (Inr plan, w') \<Longrightarrow> validate_document_plan plan facts = []"
  by (auto simp: plan_document_def io_bind_def io_lift_def Let_def split: sum.splits prod.splits if_splits
      dest!: plan_loop_Inr plan_attempt_Accepted)

text \<open>
  Claim C1, as amended. In every plan that \<open>plan_document\<close> returns, whether accepted at
  the first pass or after rejected ones, every input fact occurs exactly once in the
  concatenation of the sections' fact lists, so in exactly one section, and no statement
  occurs twice. The validation does not reject a statement that is no input fact.
\<close>

theorem accepted_plan_covers_facts:
  assumes "plan_document env cfg facts t fact_map w = (Inr plan, w')"
  shows "set facts \<subseteq> set (planned_facts plan) \<and> distinct (planned_facts plan)
         \<and> (\<forall>f \<in> set facts. count_list (planned_facts plan) f = 1)"
proof -
  from plan_document_Inr[OF assms] have s: "set facts \<subseteq> set (planned_facts plan)"
    and d: "distinct (planned_facts plan)"
    by (simp_all add: validate_document_plan_empty missing_facts_empty duplicate_facts_empty)
  from d s have "\<forall>f \<in> set facts. count_list (planned_facts plan) f = 1"
    by (auto simp: distinct_count_one)
  with s d show ?thesis by blast
qed

text \<open>The hypothesis of \<open>accepted_plan_covers_facts\<close> holds for the run on \<open>good_reply\<close>.\<close>

theorem accepted_plan_covers_facts_witness:
  "plan_document good_env c8_config facts3 c8_table [] empty_world
     = (Inr good_plan, empty_world\<lparr>calls := [c8_messages]\<rparr>)
   \<and> set facts3 \<subseteq> set (planned_facts good_plan) \<and> distinct (planned_facts good_plan)"
  using accepted_plan_covers_facts[OF run_good] run_good by simp

text \<open>
  Claim C1 as stated fails: the plan of \<open>extra_reply\<close> is accepted and returned, and its
  second section holds a statement outside the input facts.
\<close>

theorem accepted_plan_extra_fact:
  "plan_document extra_env c8_config facts3 c8_table [] empty_world
     = (Inr extra_plan, empty_world\<lparr>calls := [c8_messages]\<rparr>)
   \<and> ''The d for r1 is 4'' \<in> set (planned_facts extra_plan)
   \<and> ''The d for r1 is 4'' \<notin> set facts3
   \<and> set (planned_facts extra_plan) \<noteq> set facts3"
proof -
  have "''The d for r1 is 4'' \<in> set (planned_facts extra_plan)"
    by (simp add: planned_facts_def extra_plan_def two_section_plan_def)
  moreover have "''The d for r1 is 4'' \<notin> set facts3" by (simp add: facts3_def)
  ultimately show ?thesis using run_extra by auto
qed


section \<open>Writing, verifying, repairing: claims C5 and C10\<close>

lemma split_lookup: "build_fact_lookup split_fact_map =
   [(''The a for r1 is 1'', split_fact), (''The a for r1 is odd'', split_fact), (''The a for r1 is below 2'', split_fact)]"
  by (simp add: build_fact_lookup_def split_fact_map_def dict_values_def add_fact_obj_def dict_keys_def)
     (simp add: split_fact_def)

text \<open>
  Claim C5 on the code. For a fact with sub-facts that the section plan names by its
  parent statement, \<open>write_section\<close> and \<open>verify_section\<close> put only the sub-facts and
  their guidance into the prompt; \<open>repair_section\<close> puts the parent statement with the
  parent guidance first, and the sub-facts after it.
\<close>

theorem repair_section_includes_parent_fact:
  "fg_sub_facts split_fact \<noteq> []
   \<and> write_facts_with_guidance parent_plan split_fact_map
       = map fact_entry [(split_fact, ''The a for r1 is odd'', ''g1''), (split_fact, ''The a for r1 is below 2'', ''g2'')]
   \<and> verify_facts_with_guidance parent_plan split_fact_map
       = map cell_fact_entry [(split_fact, ''The a for r1 is odd'', ''g1''), (split_fact, ''The a for r1 is below 2'', ''g2'')]
   \<and> repair_facts_with_guidance parent_plan split_fact_map
       = map fact_entry [(split_fact, fg_fact split_fact, fg_writing_guidance split_fact),
                         (split_fact, ''The a for r1 is odd'', ''g1''), (split_fact, ''The a for r1 is below 2'', ''g2'')]"
  by (simp add: write_facts_with_guidance_def verify_facts_with_guidance_def repair_facts_with_guidance_def
      split_lookup parent_plan_def write_entries_def verify_entries_def repair_entries_def dict_get_def)
     (simp add: split_fact_def)

lemma write_entries_sub_facts:
  assumes "dict_get fact_lookup fact_str = Some fact_obj" "fg_sub_facts fact_obj \<noteq> []"
  shows "\<forall>e \<in> set (write_entries fact_lookup fact_str). fst e = fact_obj \<and> snd e \<in> set (fg_sub_facts fact_obj)"
    and "\<forall>e \<in> set (verify_entries fact_lookup fact_str). fst e = fact_obj \<and> snd e \<in> set (fg_sub_facts fact_obj)"
  using assms
  by (auto simp: write_entries_def verify_entries_def dict_get_def split: option.splits dest: map_of_SomeD)

lemma verify_section_total:
  "\<exists>res w'. verify_section env cfg content section_plan fact_map t sa w = (Inr res, w')
     \<and> (\<forall>e w1. verify_request env cfg (verify_messages content section_plan fact_map t) w = (Inl e, w1)
           \<longrightarrow> \<not> vr_ok res \<and> vr_errors res \<noteq> [] \<and> wellformed_errors (vr_errors res))"
  by (cases "verify_request env cfg (verify_messages content section_plan fact_map t) w")
     (auto simp: verify_section_def io_try_def io_bind_def io_return_def log_msg_def wellformed_errors_def
        dict_get_def split: sum.splits)

lemma error_lines_ok: "wellformed_errors errs \<Longrightarrow> \<exists>ls. map_raise error_line errs = Inr ls"
  by (rule map_raise_ok) (auto simp: wellformed_errors_def error_line_def split: option.splits)

lemma repair_section_total:
  assumes "wellformed_errors errs"
  shows "\<exists>c w' ls. map_raise error_line errs = Inr ls
     \<and> repair_section env cfg original_content section_plan fact_map errs w = (Inr c, w')
     \<and> (\<forall>e w1. call_llm env cfg (repair_messages original_content section_plan fact_map ls) w = (Inl e, w1)
           \<longrightarrow> c = original_content)"
proof -
  from error_lines_ok[OF assms] obtain ls where ls: "map_raise error_line errs = Inr ls" by blast
  show ?thesis
    by (cases "call_llm env cfg (repair_messages original_content section_plan fact_map ls) w")
       (auto simp: repair_section_def ls io_try_def io_bind_def io_return_def io_lift_def log_msg_def
          split: sum.splits)
qed

text \<open>
  Claim C10, as amended. \<open>verify_section\<close> never raises; when the request, the parsing or
  the validation of the answer fails, it returns a result that is not ok and carries
  one error, with both keys. \<open>repair_section\<close> does not raise when every error carries
  the keys \<open>description\<close> and \<open>suggestion\<close>, and returns the original content when
  the generation call fails.
\<close>

theorem verify_and_repair_do_not_raise:
  "(\<exists>res w'. verify_section env cfg content section_plan fact_map t sa w = (Inr res, w')
      \<and> (\<forall>e w1. verify_request env cfg (verify_messages content section_plan fact_map t) w = (Inl e, w1)
            \<longrightarrow> \<not> vr_ok res \<and> vr_errors res \<noteq> [] \<and> wellformed_errors (vr_errors res)))
   \<and> (wellformed_errors errs \<longrightarrow>
        (\<exists>c w' ls. map_raise error_line errs = Inr ls
           \<and> repair_section env cfg content section_plan fact_map errs w = (Inr c, w')
           \<and> (\<forall>e w1. call_llm env cfg (repair_messages content section_plan fact_map ls) w = (Inl e, w1)
                 \<longrightarrow> c = content)))"
  using verify_section_total repair_section_total by blast

lemma silent_call: "call_llm silent_env c8_config messages empty_world
   = (Inl APIError, empty_world\<lparr>calls := [messages, messages, messages],
        logs := [(Warning, ''LLM Call Failed''), (Warning, ''LLM Call Failed''), (Warning, ''LLM Call Failed''),
                 (Error, ''Max retries reached. Raising exception.'')]\<rparr>)"
  by (simp add: call_llm_def c8_config_def default_config_def numeral_3_eq_3 silent_env_def empty_world_def)

text \<open>The hypotheses of \<open>verify_and_repair_do_not_raise\<close> hold when every request fails.\<close>

theorem verify_and_repair_do_not_raise_witness:
  "wellformed_errors [retry_error]
   \<and> fst (verify_section silent_env c8_config ''text'' parent_plan split_fact_map c8_table \<lparr>assignments = []\<rparr> empty_world)
       = Inr \<lparr>vr_ok = False, vr_errors = [retry_error]\<rparr>
   \<and> fst (repair_section silent_env c8_config ''text'' parent_plan split_fact_map [retry_error] empty_world)
       = Inr ''text''"
proof -
  have wf: "wellformed_errors [retry_error]"
    by (simp add: wellformed_errors_def retry_error_def dict_get_def)
  have v: "fst (verify_section silent_env c8_config ''text'' parent_plan split_fact_map c8_table \<lparr>assignments = []\<rparr> empty_world)
       = Inr \<lparr>vr_ok = False, vr_errors = [retry_error]\<rparr>"
    by (simp add: verify_section_def verify_request_def io_try_def io_bind_def silent_call io_return_def
        log_msg_def retry_error_def)
  have r: "fst (repair_section silent_env c8_config ''text'' parent_plan split_fact_map [retry_error] empty_world)
       = Inr ''text''"
    by (simp add: repair_section_def io_lift_def io_try_def io_bind_def silent_call io_return_def
        log_msg_def retry_error_def error_line_def dict_get_def)
  from verify_and_repair_do_not_raise[of silent_env c8_config "''text''" parent_plan split_fact_map c8_table
      "\<lparr>assignments = []\<rparr>" empty_world "[retry_error]"] wf v r
  show ?thesis by simp
qed

text \<open>
  Claim C10 as stated fails: an error without the key \<open>suggestion\<close> makes
  \<open>repair_section\<close> raise \<open>KeyError\<close> before its \<open>try\<close>.
\<close>

theorem repair_section_raises_on_missing_key:
  "repair_section silent_env c8_config ''text'' parent_plan split_fact_map [[(''description'', ''d'')]] empty_world
     = (Inl (KeyError ''suggestion''), empty_world)"
  by (simp add: repair_section_def io_lift_def io_bind_def error_line_def dict_get_def)

section \<open>The stage caches: claim C7\<close>












lemmas refine_defs = refine_all_cells_def process_single_cell_def process_cell_fresh_def
  generate_cell_guidance_def generate_cell_guidance_fresh_def generate_fact_guidance_def
  make_FactWritingGuidance_def get_pk_description_def safe_filename_def endswith_def rsplit_comma_def
  build_row_lookup_def refiner_json_to_markdown_def run_unit_def path_exists_def write_json_def do_op_def
  read_json_def cell_guidance_messages_def starts_R_or_D_def dict_get_def dict_contains_def dict_keys_def
  dict_of_items_def dump_FactWritingGuidance_def



lemma c8_sorted: "sort_key (\<lambda>h. - int (length h)) [''id'', ''a'', ''b'', ''c''] = [''id'', ''a'', ''b'', ''c'']"
  by simp

lemma silent_llm: "llm_api silent_env n messages = Inl APIError" "io_fails silent_env n op = False"
  by (simp_all add: silent_env_def)

lemma silent_call_any: "fst (call_llm silent_env c8_config messages w) = Inl APIError"
  by (simp add: call_llm_def c8_config_def default_config_def numeral_3_eq_3 silent_llm)

lemma cell_a: "fst (process_single_cell silent_env c8_config ''r1'' ''a'' []
     [(''r1'', [(''id'', ''r1''), (''a'', ''1''), (''b'', ''2''), (''c'', ''3'')])] md
     (c2_cache_dir @ [''cell_guidance'']) (c2_cache_dir @ [''fact_guidance'']) (safe_filename ''r1,a'') c8_table
     empty_world) = Inr (Some fact_r1_a)"
  by (simp add: refine_defs io_defs silent_llm empty_world_def c8_table_def c2_cache_dir_def fact_r1_a_def Let_def)







lemma lefts_simps [simp]: "lefts [] = []" "lefts (Inl e # rs) = e # lefts rs" "lefts (Inr x # rs) = lefts rs"
  by (simp_all add: lefts_def)

lemma rights_simps [simp]: "rights [] = []" "rights (Inl e # rs) = rights rs" "rights (Inr x # rs) = x # rights rs"
  by (simp_all add: rights_def)

lemma somes_simps [simp]: "somes [] = []" "somes (None # xs) = somes xs" "somes (Some x # xs) = x # somes xs"
  by (simp_all add: somes_def)






lemma write_section_total:
  "\<exists>c w'. write_section env cfg sp fact_map theme genre prev w = (Inr c, w')"
  unfolding write_section_def Let_def io_try_def
  by (auto simp: io_bind_def io_return_def log_msg_def split: prod.splits sum.splits)


















end
